theory Spec2Isabelle
  imports Main
begin

section \<open>The wollok-ts parser (src/parser.ts) as parser combinators over HOL functions\<close>

text \<open>
  The source builds its grammar from the combinators of the Parsimmon library. A Parsimmon
  parser is a function from the input and an index to a reply; the grammar below is the
  grammar of parser.ts, written with HOL versions of the same combinators.

  Conventions of the model:
  \<^item> the source text is a \<open>string\<close>; its characters stand for code units below 256;
  \<^item> string values that the parser decodes (string literals, test names) are lists of
    code units, since an escape \<open>\uXXXX\<close> can denote any code unit;
  \<^item> the module variable \<open>SOURCE_FILE\<close> is the first argument of every parser: parsers
    read it when they build a node, only \<open>File\<close> writes it;
  \<^item> Parsimmon's bookkeeping for error messages (furthest position, expected tokens) is
    left out; it does not influence which parse succeeds or what it returns;
  \<^item> an exception thrown while parsing is the reply \<open>Thrown\<close>;
  \<^item> the recursion of the grammar through \<open>lazy\<close> is bounded by a fuel argument;
    running out of fuel is the reply \<open>Timeout\<close>, which is never mistaken for a failed
    alternative.
\<close>

subsection \<open>Source positions and replies\<close>

datatype index = Index (offset: nat) (line: nat) (column: nat)

datatype source = Source (src_start: index) (src_end: index) (src_file: "string option")

datatype 'a reply = Success nat 'a | Failure | Thrown | Timeout

type_synonym 'a parser = "string option \<Rightarrow> string \<Rightarrow> nat \<Rightarrow> 'a reply"

type_synonym jsstring = "nat list"

definition slice :: "string \<Rightarrow> nat \<Rightarrow> nat \<Rightarrow> string" where
  "slice input a b = take (b - a) (drop a input)"

text \<open>Parsimmon's makeLineColumnIndex: lines are separated by a line feed.\<close>

definition makeLineColumnIndex :: "string \<Rightarrow> nat \<Rightarrow> index" where
  "makeLineColumnIndex input i =
     (let consumed = take i input
      in Index i
           (Suc (length (filter (\<lambda>c. c = CHR 0x0A) consumed)))
           (Suc (length (takeWhile (\<lambda>c. c \<noteq> CHR 0x0A) (rev consumed)))))"

subsection \<open>Parsimmon combinators\<close>

definition succeed :: "'a \<Rightarrow> 'a parser" where
  "succeed v = (\<lambda>g input i. Success i v)"

definition fail_p :: "'a parser" where
  "fail_p = (\<lambda>g input i. Failure)"

definition timeout :: "'a parser" where
  "timeout = (\<lambda>g input i. Timeout)"

definition chain_p :: "'a parser \<Rightarrow> ('a \<Rightarrow> 'b parser) \<Rightarrow> 'b parser" where
  "chain_p p f = (\<lambda>g input i.
     case p g input i of
       Success j v \<Rightarrow> f v g input j
     | Failure \<Rightarrow> Failure
     | Thrown \<Rightarrow> Thrown
     | Timeout \<Rightarrow> Timeout)"

definition map_p :: "('a \<Rightarrow> 'b) \<Rightarrow> 'a parser \<Rightarrow> 'b parser" where
  "map_p f p = chain_p p (\<lambda>v. succeed (f v))"

definition result :: "'b \<Rightarrow> 'a parser \<Rightarrow> 'b parser" where
  "result v p = map_p (\<lambda>_. v) p"

definition then_p :: "'a parser \<Rightarrow> 'b parser \<Rightarrow> 'b parser" where
  "then_p p q = chain_p p (\<lambda>_. q)"

definition skip :: "'a parser \<Rightarrow> 'b parser \<Rightarrow> 'a parser" where
  "skip p q = chain_p p (\<lambda>v. chain_p q (\<lambda>_. succeed v))"

fun alt :: "'a parser list \<Rightarrow> 'a parser" where
  "alt [] = fail_p"
| "alt (p # ps) = (\<lambda>g input i.
     case p g input i of
       Failure \<Rightarrow> alt ps g input i
     | r \<Rightarrow> r)"

definition or_p :: "'a parser \<Rightarrow> 'a parser \<Rightarrow> 'a parser" where
  "or_p p q = alt [p, q]"

definition fallback :: "'a \<Rightarrow> 'a parser \<Rightarrow> 'a parser" where
  "fallback v p = or_p p (succeed v)"

definition optional :: "'a parser \<Rightarrow> 'a option parser" where
  "optional p = fallback None (map_p Some p)"

definition check :: "'a parser \<Rightarrow> bool parser" where
  "check p = fallback False (result True p)"

definition void :: "'a parser \<Rightarrow> unit parser" where
  "void p = result () p"

text \<open>
  \<open>many\<close> repeats a parser until it fails. Parsimmon throws when a round succeeds without
  consuming input. A round that moved the index backwards or beyond the input (no parser
  of the grammar does) is treated the same way.
\<close>

function many :: "'a parser \<Rightarrow> 'a list parser" where
  "many p g input i =
     (case p g input i of
        Success j v \<Rightarrow>
          (if i < j \<and> j \<le> length input then
             (case many p g input j of
                Success k vs \<Rightarrow> Success k (v # vs)
              | Failure \<Rightarrow> Failure
              | Thrown \<Rightarrow> Thrown
              | Timeout \<Rightarrow> Timeout)
           else Thrown)
      | Failure \<Rightarrow> Success i []
      | Thrown \<Rightarrow> Thrown
      | Timeout \<Rightarrow> Timeout)"
  by pat_completeness auto
termination
  by (relation "measure (\<lambda>(p, g, input, i). length input - i)") auto

declare many.simps [simp del]

primrec times_p :: "nat \<Rightarrow> 'a parser \<Rightarrow> 'a list parser" where
  "times_p 0 p = succeed []"
| "times_p (Suc n) p = chain_p p (\<lambda>v. chain_p (times_p n p) (\<lambda>vs. succeed (v # vs)))"

definition atLeast_p :: "nat \<Rightarrow> 'a parser \<Rightarrow> 'a list parser" where
  "atLeast_p n p = chain_p (times_p n p) (\<lambda>init. chain_p (many p) (\<lambda>rest. succeed (init @ rest)))"

definition sepBy1 :: "'b parser \<Rightarrow> 'a parser \<Rightarrow> 'a list parser" where
  "sepBy1 separator p =
     chain_p p (\<lambda>r. chain_p (many (then_p separator p)) (\<lambda>rs. succeed (r # rs)))"

definition sepBy :: "'b parser \<Rightarrow> 'a parser \<Rightarrow> 'a list parser" where
  "sepBy separator p = or_p (sepBy1 separator p) (succeed [])"

definition notFollowedBy :: "'a parser \<Rightarrow> unit parser" where
  "notFollowedBy p = (\<lambda>g input i.
     case p g input i of
       Success j v \<Rightarrow> Failure
     | Failure \<Rightarrow> Success i ()
     | Thrown \<Rightarrow> Thrown
     | Timeout \<Rightarrow> Timeout)"

definition index_p :: "index parser" where
  "index_p = (\<lambda>g input i. Success i (makeLineColumnIndex input i))"

definition mark :: "'a parser \<Rightarrow> (index \<times> 'a \<times> index) parser" where
  "mark p = chain_p index_p (\<lambda>s. chain_p p (\<lambda>v. chain_p index_p (\<lambda>e. succeed (s, v, e))))"

definition wrap :: "'b parser \<Rightarrow> 'c parser \<Rightarrow> 'a parser \<Rightarrow> 'a parser" where
  "wrap l r p = chain_p l (\<lambda>_. chain_p p (\<lambda>v. chain_p r (\<lambda>_. succeed v)))"

definition trim :: "'b parser \<Rightarrow> 'a parser \<Rightarrow> 'a parser" where
  "trim t p = wrap t t p"

definition string_p :: "string \<Rightarrow> string parser" where
  "string_p s = (\<lambda>g input i.
     if take (length s) (drop i input) = s then Success (i + length s) s else Failure)"

definition any :: "char parser" where
  "any = (\<lambda>g input i. if i < length input then Success (Suc i) (input ! i) else Failure)"

definition takeWhile_p :: "(char \<Rightarrow> bool) \<Rightarrow> string parser" where
  "takeWhile_p pred = (\<lambda>g input i.
     let taken = takeWhile pred (drop i input) in Success (i + length taken) taken)"

definition eof :: "unit parser" where
  "eof = (\<lambda>g input i. if i < length input then Failure else Success i ())"

text \<open>Reading the module variable \<open>SOURCE_FILE\<close> at the moment a node is built.\<close>

definition SOURCE_FILE :: "string option parser" where
  "SOURCE_FILE = (\<lambda>g input i. Success i g)"

text \<open>\<open>parser.tryParse(input)\<close>: the whole input has to be consumed.\<close>

definition tryParse :: "'a parser \<Rightarrow> string option \<Rightarrow> string \<Rightarrow> 'a reply" where
  "tryParse p g input = skip p eof g input 0"

subsection \<open>Regular expressions of the lexical layer\<close>

definition is_digit :: "char \<Rightarrow> bool" where
  "is_digit c = (let n = (of_char c :: nat) in 48 \<le> n \<and> n \<le> 57)"

definition is_letter :: "char \<Rightarrow> bool" where
  "is_letter c = (let n = (of_char c :: nat) in (65 \<le> n \<and> n \<le> 90) \<or> (97 \<le> n \<and> n \<le> 122))"

text \<open>The class \<open>\w\<close>.\<close>

definition is_word :: "char \<Rightarrow> bool" where
  "is_word c = (is_letter c \<or> is_digit c \<or> c = CHR ''_'')"

text \<open>The class \<open>\s\<close>, for code units below 256.\<close>

definition is_space :: "char \<Rightarrow> bool" where
  "is_space c = ((of_char c :: nat) \<in> {9, 10, 11, 12, 13, 32, 160})"

definition is_hex :: "char \<Rightarrow> bool" where
  "is_hex c = (let n = (of_char c :: nat) in
     (48 \<le> n \<and> n \<le> 57) \<or> (65 \<le> n \<and> n \<le> 70) \<or> (97 \<le> n \<and> n \<le> 102))"

text \<open>\<open>regex(/\w/)\<close>\<close>

definition word_char :: "string parser" where
  "word_char = (\<lambda>g input i.
     if i < length input \<and> is_word (input ! i) then Success (Suc i) [input ! i] else Failure)"

text \<open>\<open>whitespace\<close>, that is \<open>regex(/\s+/)\<close>\<close>

definition whitespace :: "string parser" where
  "whitespace = (\<lambda>g input i.
     let taken = takeWhile is_space (drop i input)
     in if taken = [] then Failure else Success (i + length taken) taken)"

text \<open>
  The length of the shortest prefix of a text that ends in \<open>*/\<close>: the lazy quantifier of the
  block comment stops at the first terminator.
\<close>

fun block_end :: "string \<Rightarrow> nat option" where
  "block_end [] = None"
| "block_end [c] = None"
| "block_end (c # d # cs) =
     (if c = CHR ''*'' \<and> d = CHR ''/'' then Some 2
      else map_option Suc (block_end (d # cs)))"

text \<open>\<open>comment\<close>: \<open>regex(/\/\*(.|[\r\n])*?\*\/|\/\/.*/)\<close>; the dot stops at a line terminator.\<close>

definition comment :: "string parser" where
  "comment = (\<lambda>g input i.
     let rest = drop i input in
     if take 2 rest = ''/*'' then
       (case block_end (drop 2 rest) of
          Some n \<Rightarrow> Success (i + 2 + n) (take (2 + n) rest)
        | None \<Rightarrow> Failure)
     else if take 2 rest = ''//'' then
       (let taken = takeWhile (\<lambda>c. c \<noteq> CHR 0x0A \<and> c \<noteq> CHR 0x0D) (drop 2 rest)
        in Success (i + 2 + length taken) (take (2 + length taken) rest))
     else Failure)"

text \<open>\<open>_\<close>: \<open>comment.or(whitespace).atLeast(1)\<close>\<close>

definition ws :: "string list parser" where
  "ws = atLeast_p 1 (or_p comment whitespace)"

text \<open>\<open>key\<close>: a keyword or punctuation, with the blanks and comments around it.\<close>

definition key :: "string \<Rightarrow> string parser" where
  "key s = trim (optional ws)
     (if list_ex (\<lambda>c. is_word c \<or> c = CHR '' '') s
      then skip (string_p s) (notFollowedBy word_char)
      else string_p s)"

text \<open>\<open>name\<close>: \<open>regex(/[^\W\d]\w*/)\<close>\<close>

definition name :: "string parser" where
  "name = (\<lambda>g input i.
     let rest = drop i input in
     (case rest of
        [] \<Rightarrow> Failure
      | c # cs \<Rightarrow>
          if is_word c \<and> \<not> is_digit c
          then (let taken = c # takeWhile is_word cs in Success (i + length taken) taken)
          else Failure))"

text \<open>
  The number literal: \<open>regex(/-?\d+(\.\d+)?/)\<close>. The value in the source is the float
  \<open>Number(text)\<close>; the model keeps the matched text.
\<close>

definition number :: "string parser" where
  "number = (\<lambda>g input i.
     let rest = drop i input;
         sign = (if take 1 rest = ''-'' then ''-'' else []);
         rest1 = drop (length sign) rest;
         whole = takeWhile is_digit rest1;
         rest2 = drop (length whole) rest1;
         frac = (case rest2 of
                   [] \<Rightarrow> []
                 | c # cs \<Rightarrow>
                     if c = CHR ''.'' \<and> takeWhile is_digit cs \<noteq> []
                     then c # takeWhile is_digit cs else []);
         taken = sign @ whole @ frac
     in if whole = [] then Failure else Success (i + length taken) taken)"


text \<open>
  The string literal: \<open>regex(/"((?:[^\\"]|\\[bfnrtv"\\/]|\\u[0-9a-fA-F]{4})*)"/, 1)\<close> and
  the same with single quotes. \<open>string_body q\<close> is the longest prefix that the starred
  group matches when the quote is \<open>q\<close>; the pieces of the group start with different
  characters and none starts with the quote, so the greedy match is the only one.
\<close>

function string_body :: "char \<Rightarrow> string \<Rightarrow> string" where
  "string_body q [] = []"
| "string_body q (c # cs) =
     (if c \<noteq> CHR 0x5C \<and> c \<noteq> q then c # string_body q cs
      else if c = CHR 0x5C then
        (case cs of
           [] \<Rightarrow> []
         | d # ds \<Rightarrow>
             if d \<in> set ''bfnrtv/'' \<or> d = CHR 0x5C \<or> d = q then c # d # string_body q ds
             else if d = CHR ''u'' \<and> 4 \<le> length ds \<and> list_all is_hex (take 4 ds)
               then c # d # take 4 ds @ string_body q (drop 4 ds)
             else [])
      else [])"
  by pat_completeness auto
termination
  by (relation "measure (\<lambda>(q, s). length s)") auto

definition quoted :: "char \<Rightarrow> string parser" where
  "quoted q = (\<lambda>g input i.
     if i < length input \<and> input ! i = q then
       (let body = string_body q (drop (Suc i) input);
            j = Suc i + length body
        in if j < length input \<and> input ! j = q then Success (Suc j) body else Failure)
     else Failure)"

text \<open>The library function \<open>unraw\<close> turns the escapes of a raw text into code units.\<close>

definition hex_digit :: "char \<Rightarrow> nat" where
  "hex_digit c = (let n = (of_char c :: nat) in
     if 48 \<le> n \<and> n \<le> 57 then n - 48
     else if 65 \<le> n \<and> n \<le> 70 then n - 55
     else n - 87)"

definition escape :: "char \<Rightarrow> nat" where
  "escape d =
     (if d = CHR ''b'' then 8 else if d = CHR ''f'' then 12 else if d = CHR ''n'' then 10
      else if d = CHR ''r'' then 13 else if d = CHR ''t'' then 9 else if d = CHR ''v'' then 11
      else of_char d)"

function unraw :: "string \<Rightarrow> jsstring" where
  "unraw [] = []"
| "unraw (c # cs) =
     (if c = CHR 0x5C then
        (case cs of
           [] \<Rightarrow> [of_char c]
         | d # ds \<Rightarrow>
             if d = CHR ''u''
             then foldl (\<lambda>n h. 16 * n + hex_digit h) 0 (take 4 ds) # unraw (drop 4 ds)
             else escape d # unraw ds)
      else of_char c # unraw cs)"
  by pat_completeness auto
termination
  by (relation "measure length") auto

definition stringLiteral :: "jsstring parser" where
  "stringLiteral = map_p unraw (alt [quoted (CHR 0x22), quoted (CHR 0x27)])"

text \<open>\<open>`"${name}"`\<close>\<close>

definition in_quotes :: "jsstring \<Rightarrow> jsstring" where
  "in_quotes s = 34 # s @ [34]"

text \<open>\<open>tieWith(separator)\<close> joins the parsed pieces.\<close>

fun tieWith :: "string \<Rightarrow> string list \<Rightarrow> string" where
  "tieWith separator [] = []"
| "tieWith separator [x] = x"
| "tieWith separator (x # y # ys) = x @ separator @ tieWith separator (y # ys)"

subsection \<open>Operator tables\<close>

definition PREFIX_OPERATORS :: "(string \<times> string) list" where
  "PREFIX_OPERATORS =
     [(''!'', ''negate''), (''-'', ''invert''), (''+'', ''plus''), (''not'', ''negate'')]"

definition ASSIGNATION_OPERATORS :: "string list" where
  "ASSIGNATION_OPERATORS = [''='', ''||='', ''/='', ''-='', ''+='', ''*='', ''&&='', ''%='']"

definition LAZY_OPERATORS :: "string list" where
  "LAZY_OPERATORS = [''||'', ''&&'', ''or'', ''and'']"

definition INFIX_OPERATORS :: "string list list" where
  "INFIX_OPERATORS =
     [[''||'', ''or''],
      [''&&'', ''and''],
      [''==='', ''=='', ''!=='', ''!=''],
      [''>='', ''>'', ''<='', ''<''],
      [''?:'', ''>>>'', ''>>'', ''>..'', ''<>'', ''<=>'', ''<<<'', ''<<'', ''..<'', ''..'', ''->''],
      [''-'', ''+''],
      [''/'', ''*''],
      [''**'', ''%'']]"

text \<open>
  \<open>a.localeCompare(b)\<close> for the texts of the operator tables. The characters are ranked as
  the root collation of the Unicode CLDR ranks them: punctuation, then symbols, then
  digits, then letters; texts are compared rank by rank and a proper prefix comes first.
\<close>

definition collation :: "string" where
  "collation = ''_-,;:!?.()[]{}@*/&#%^+<=>|~$0123456789abcdefghijklmnopqrstuvwxyz''"

definition rank :: "char \<Rightarrow> nat" where
  "rank c = length (takeWhile (\<lambda>d. d \<noteq> c) collation)"

fun localeCompare :: "string \<Rightarrow> string \<Rightarrow> int" where
  "localeCompare [] [] = 0"
| "localeCompare [] (y # ys) = - 1"
| "localeCompare (x # xs) [] = 1"
| "localeCompare (x # xs) (y # ys) =
     (if rank x < rank y then - 1
      else if rank y < rank x then 1
      else localeCompare xs ys)"

text \<open>\<open>Array.prototype.sort(compare)\<close>: a stable sort by the comparison function.\<close>

fun insert_sorted :: "('a \<Rightarrow> 'a \<Rightarrow> int) \<Rightarrow> 'a \<Rightarrow> 'a list \<Rightarrow> 'a list" where
  "insert_sorted compare x [] = [x]"
| "insert_sorted compare x (y # ys) =
     (if compare x y \<le> 0 then x # y # ys else y # insert_sorted compare x ys)"

definition sort_js :: "('a \<Rightarrow> 'a \<Rightarrow> int) \<Rightarrow> 'a list \<Rightarrow> 'a list" where
  "sort_js compare xs = foldr (insert_sorted compare) xs []"

definition ALL_OPERATORS :: "string list" where
  "ALL_OPERATORS =
     sort_js (\<lambda>a b. localeCompare b a) (map snd PREFIX_OPERATORS @ concat INFIX_OPERATORS)"

subsection \<open>The nodes of the syntax tree\<close>

datatype 'n literal = Null | Boolean bool | Number string | String jsstring | NodeValue 'n

datatype 'n method_body = BodyValue 'n | Native | Absent

text \<open>
  One constructor per node class of the model, with the fields of the payload that the
  parser passes, in the order of the payload, and the \<open>source\<close> last.

  \<open>Closure\<close> is modelled from the spec: \<open>build.Closure\<close> (builders.ts, missing from the
  sources) makes the closure literal from a payload of parameters, sentences, code and
  source. The constructor keeps that payload; parameters left out are the empty list.
\<close>

datatype node =
    PackageNode string "node list" "node list" "node list option" "source option"
  | ImportNode node bool "source option"
  | ReferenceNode string "source option"
  | ParameterNode string bool "source option"
  | NamedArgumentNode string node "source option"
  | BodyNode "node list" "source option"
  | ProgramNode string node "source option"
  | DescribeNode jsstring "node list" "node list" "source option"
  | TestNode bool jsstring node "source option"
  | ClassNode string "node option" "node list" "node list" "node list" "source option"
  | SingletonNode "string option" "node option" "node list" "node list" "node list"
      "node list option" "source option"
  | MixinNode string "node list" "node list" "node list" "source option"
  | FieldNode bool bool string "node option" "source option"
  | MethodNode bool string "node list" "node method_body" "source option"
  | ConstructorNode "node list" "(bool \<times> node list) option" node "source option"
  | FixtureNode node "source option"
  | VariableNode bool string "node option" "source option"
  | ReturnNode "node option" "source option"
  | AssignmentNode node node "source option"
  | SelfNode "source option"
  | SuperNode "node list" "source option"
  | NewNode node "node list" "source option"
  | IfNode node node "node option" "source option"
  | ThrowNode node "source option"
  | TryNode node "node list" "node option" "source option"
  | CatchNode node "node option" node "source option"
  | SendNode node string "node list" "source option"
  | LiteralNode "node literal" "source option"
  | Closure "node list" "node list" "string option" "source option"
  | ParseError string source

text \<open>\<open>value.source\<close>\<close>

fun source_of :: "node \<Rightarrow> source option" where
  "source_of (PackageNode _ _ _ _ s) = s"
| "source_of (ImportNode _ _ s) = s"
| "source_of (ReferenceNode _ s) = s"
| "source_of (ParameterNode _ _ s) = s"
| "source_of (NamedArgumentNode _ _ s) = s"
| "source_of (BodyNode _ s) = s"
| "source_of (ProgramNode _ _ s) = s"
| "source_of (DescribeNode _ _ _ s) = s"
| "source_of (TestNode _ _ _ s) = s"
| "source_of (ClassNode _ _ _ _ _ s) = s"
| "source_of (SingletonNode _ _ _ _ _ _ s) = s"
| "source_of (MixinNode _ _ _ _ s) = s"
| "source_of (FieldNode _ _ _ _ s) = s"
| "source_of (MethodNode _ _ _ _ s) = s"
| "source_of (ConstructorNode _ _ _ s) = s"
| "source_of (FixtureNode _ s) = s"
| "source_of (VariableNode _ _ _ s) = s"
| "source_of (ReturnNode _ s) = s"
| "source_of (AssignmentNode _ _ s) = s"
| "source_of (SelfNode s) = s"
| "source_of (SuperNode _ s) = s"
| "source_of (NewNode _ _ s) = s"
| "source_of (IfNode _ _ _ s) = s"
| "source_of (ThrowNode _ s) = s"
| "source_of (TryNode _ _ _ s) = s"
| "source_of (CatchNode _ _ _ s) = s"
| "source_of (SendNode _ _ _ s) = s"
| "source_of (LiteralNode _ s) = s"
| "source_of (Closure _ _ _ s) = s"
| "source_of (ParseError _ s) = Some s"

text \<open>\<open>member instanceof ParseError\<close>\<close>

fun is_ParseError :: "node \<Rightarrow> bool" where
  "is_ParseError (ParseError _ _) = True"
| "is_ParseError _ = False"


subsection \<open>Problems and recovery\<close>

text \<open>
  \<open>error(code)(...safewords)\<close>: skips input up to the next safeword, a braced region in one
  step, and reports the skipped span.
\<close>

definition error :: "string \<Rightarrow> string list \<Rightarrow> node parser" where
  "error code safewords =
     chain_p
       (mark (atLeast_p 1
          (then_p (notFollowedBy (alt (map key safewords)))
             (alt [void (chain_p (string_p ''{'') (\<lambda>_.
                      chain_p (takeWhile_p (\<lambda>c. c \<noteq> CHR ''}'')) (\<lambda>_. string_p ''}''))),
                   void any]))))
       (\<lambda>(start, skipped, end). chain_p SOURCE_FILE (\<lambda>file.
          succeed (ParseError code (Source start end file))))"

text \<open>
  Modelled from the spec: \<open>discriminate\<close> (extensions.ts, missing from the sources) splits a
  list into the items that satisfy a test and the others, both in their order.
\<close>

definition discriminate :: "('a \<Rightarrow> bool) \<Rightarrow> 'a list \<Rightarrow> 'a list \<times> 'a list" where
  "discriminate isT xs = (filter isT xs, filter (\<lambda>x. \<not> isT x) xs)"

text \<open>
  \<open>recover\<close> visits the fields of a payload in their order. The argument lists the fields
  that hold arrays; the others are returned as they are, so they stay with the caller.
  The result is the purged arrays and the problems that were taken out of them.
\<close>

definition recover :: "node list list \<Rightarrow> node list list \<times> node list" where
  "recover arrays =
     (map (\<lambda>value. snd (discriminate is_ParseError value)) arrays,
      concat (map (\<lambda>value. fst (discriminate is_ParseError value)) arrays))"

subsection \<open>The grammar\<close>

text \<open>
  \<open>node(constructor)(parser)\<close>: the payload is the constructor waiting for its source.
\<close>

definition node :: "(source option \<Rightarrow> node) parser \<Rightarrow> node parser" where
  "node parser =
     chain_p (then_p (optional ws) index_p) (\<lambda>start.
     chain_p parser (\<lambda>payload.
     chain_p index_p (\<lambda>end.
     chain_p SOURCE_FILE (\<lambda>file.
       succeed (payload (Some (Source start end file)))))))"

definition FullyQualifiedReference :: "node parser" where
  "FullyQualifiedReference =
     node (map_p ReferenceNode (map_p (tieWith ''.'') (sepBy1 (key ''.'') name)))"

definition Import :: "node parser" where
  "Import = node (then_p (key ''import'')
     (chain_p FullyQualifiedReference (\<lambda>entity.
      chain_p (fallback False (result True (string_p ''.*''))) (\<lambda>isGeneric.
        succeed (ImportNode entity isGeneric)))))"

definition Reference :: "node parser" where
  "Reference = node (map_p ReferenceNode name)"

definition Parameter :: "node parser" where
  "Parameter = node
     (chain_p name (\<lambda>n.
      chain_p (fallback False (result True (string_p ''...''))) (\<lambda>isVarArg.
        succeed (ParameterNode n isVarArg))))"

definition parameters :: "node list parser" where
  "parameters = wrap (key ''('') (key '')'') (sepBy (key '','') Parameter)"

definition operator :: "string list \<Rightarrow> string parser" where
  "operator operatorNames = alt (map key operatorNames)"

text \<open>\<open>optional(alt(key(';'), _))\<close>, which follows a sentence\<close>

definition sentence_end :: "unit option parser" where
  "sentence_end = optional (alt [void (key '';''), void ws])"

text \<open>
  The definitions from here on take the parser \<open>E\<close> that stands for the references to
  \<open>Expression\<close> in their bodies; \<open>Expression\<close> below closes the recursion.
\<close>

definition NamedArgument :: "node parser \<Rightarrow> node parser" where
  "NamedArgument E = node
     (chain_p name (\<lambda>n.
      chain_p (then_p (key ''='') E) (\<lambda>v.
        succeed (NamedArgumentNode n v))))"

definition unamedArguments :: "node parser \<Rightarrow> node list parser" where
  "unamedArguments E = wrap (key ''('') (key '')'') (sepBy (key '','') E)"

definition namedArguments :: "node parser \<Rightarrow> node list parser" where
  "namedArguments E = wrap (key ''('') (key '')'') (sepBy (key '','') (NamedArgument E))"

definition Variable :: "node parser \<Rightarrow> node parser" where
  "Variable E = node
     (chain_p (alt [result False (key ''var''), result True (key ''const'')]) (\<lambda>isReadOnly.
      chain_p name (\<lambda>n.
      chain_p (optional (then_p (key ''='') E)) (\<lambda>v.
        succeed (VariableNode isReadOnly n v)))))"

definition Return :: "node parser \<Rightarrow> node parser" where
  "Return E = node (then_p (key ''return'') (map_p ReturnNode (optional E)))"

definition Assignment :: "node parser \<Rightarrow> node parser" where
  "Assignment E = node
     (chain_p Reference (\<lambda>variable.
      chain_p (operator ASSIGNATION_OPERATORS) (\<lambda>assignation.
      chain_p E (\<lambda>v.
        succeed (AssignmentNode variable
          (if assignation = ''=''
           then v
           else SendNode variable (butlast assignation)
                  (if butlast assignation \<in> set LAZY_OPERATORS
                   then [Closure [] [v] None None]
                   else [v])
                  None))))))"

definition Sentence :: "node parser \<Rightarrow> node parser" where
  "Sentence E = alt [Variable E, Return E, Assignment E, E]"

definition Body :: "node parser \<Rightarrow> node parser" where
  "Body E = node
     (wrap (key ''{'') (key ''}'') (map_p BodyNode (many (skip (Sentence E) sentence_end))))"

definition inlineableBody :: "node parser \<Rightarrow> node parser" where
  "inlineableBody E = alt [Body E, node (map_p BodyNode (times_p 1 (Sentence E)))]"

subsubsection \<open>Members\<close>

definition memberError :: "node parser" where
  "memberError = error ''malformedMember''
     [''method'', ''fixture'', ''var'', ''const'', ''test'', ''describe'', ''}'']"

definition classMemberError :: "node parser" where
  "classMemberError = error ''malformedMember''
     [''method'', ''constructor'', ''var'', ''const'', ''}'']"

definition Field_p :: "node parser \<Rightarrow> node parser" where
  "Field_p E = node
     (chain_p (alt [result False (key ''var''), result True (key ''const'')]) (\<lambda>isReadOnly.
      chain_p (check (key ''property'')) (\<lambda>isProperty.
      chain_p name (\<lambda>n.
      chain_p (optional (then_p (key ''='') E)) (\<lambda>v.
        succeed (FieldNode isReadOnly isProperty n v))))))"

definition Method :: "node parser \<Rightarrow> node parser" where
  "Method E = node
     (chain_p (check (key ''override'')) (\<lambda>isOverride.
      chain_p (then_p (key ''method'') (alt [name, operator ALL_OPERATORS])) (\<lambda>n.
      chain_p parameters (\<lambda>ps.
      chain_p
        (alt [then_p (key ''='')
                (map_p (\<lambda>v. BodyValue (BodyNode [ReturnNode (Some v) None] (source_of v))) E),
              result Native (key ''native''),
              map_p (\<lambda>b. case b of Some body \<Rightarrow> BodyValue body | None \<Rightarrow> Absent)
                (optional (Body E))])
        (\<lambda>body.
        succeed (MethodNode isOverride n ps body))))))"

definition Constructor :: "node parser \<Rightarrow> node parser" where
  "Constructor E = node (then_p (key ''constructor'')
     (chain_p parameters (\<lambda>ps.
      chain_p (optional (then_p (key ''='')
                 (chain_p (alt [result False (key ''self''), result True (key ''super'')])
                    (\<lambda>callsSuper.
                  chain_p (unamedArguments E) (\<lambda>args. succeed (callsSuper, args))))))
        (\<lambda>baseCall.
      chain_p (fallback (BodyNode [] None) (Body E)) (\<lambda>body.
        succeed (ConstructorNode ps baseCall body))))))"

definition Fixture :: "node parser \<Rightarrow> node parser" where
  "Fixture E = node (then_p (key ''fixture'') (map_p FixtureNode (Body E)))"

subsubsection \<open>Entities\<close>

definition entityError :: "node parser" where
  "entityError = error ''malformedEntity''
     [''package'', ''class'', ''singleton'', ''mixin'', ''program'', ''describe'', ''test'',
      ''var'', ''const'', ''}'']"

definition Package :: "node parser \<Rightarrow> node parser" where
  "Package Entity = node (map_p
       (\<lambda>(n, imports, members).
          case recover [imports, members] of
            (purged, problems) \<Rightarrow> PackageNode n (purged ! 0) (purged ! 1) (Some problems))
       (then_p (key ''package'')
          (chain_p (skip name (key ''{'')) (\<lambda>n.
           chain_p (many (skip Import sentence_end)) (\<lambda>imports.
           chain_p (skip (sepBy (optional ws) (or_p Entity entityError)) (key ''}''))
             (\<lambda>members.
             succeed (n, imports, members)))))))"

definition Program :: "node parser \<Rightarrow> node parser" where
  "Program E = node (then_p (key ''program'')
     (chain_p name (\<lambda>n.
      chain_p (Body E) (\<lambda>body.
        succeed (ProgramNode n body)))))"

definition Test :: "node parser \<Rightarrow> node parser" where
  "Test E = node
     (chain_p (check (key ''only'')) (\<lambda>isOnly.
      chain_p (then_p (key ''test'') (map_p in_quotes stringLiteral)) (\<lambda>n.
      chain_p (Body E) (\<lambda>body.
        succeed (TestNode isOnly n body)))))"

definition Describe :: "node parser \<Rightarrow> node parser" where
  "Describe E = node (map_p
       (\<lambda>(n, members).
          case recover [members] of
            (purged, problems) \<Rightarrow> DescribeNode n (purged ! 0) problems)
       (then_p (key ''describe'')
          (chain_p (map_p in_quotes stringLiteral) (\<lambda>n.
           chain_p (wrap (key ''{'') (key ''}'')
                      (sepBy (optional ws)
                         (or_p (alt [Variable E, Fixture E, Test E, Method E]) memberError)))
             (\<lambda>members.
             succeed (n, members))))))"

definition mixins :: "node list parser" where
  "mixins = fallback []
     (map_p rev (then_p (key ''mixed with'') (sepBy1 (key ''and'') FullyQualifiedReference)))"

definition Class :: "node parser \<Rightarrow> node parser" where
  "Class E = node (map_p
       (\<lambda>(n, superclassRef, ms, members).
          case recover [ms, members] of
            (purged, problems) \<Rightarrow> ClassNode n superclassRef (purged ! 0) (purged ! 1) problems)
       (then_p (key ''class'')
          (chain_p name (\<lambda>n.
           chain_p (optional (then_p (key ''inherits'') FullyQualifiedReference))
             (\<lambda>superclassRef.
           chain_p mixins (\<lambda>ms.
           chain_p (wrap (key ''{'') (key ''}'')
                      (sepBy (optional ws)
                         (alt [Constructor E, Field_p E, Method E, classMemberError])))
             (\<lambda>members.
             succeed (n, superclassRef, ms, members))))))))"

definition Singleton :: "node parser \<Rightarrow> node parser" where
  "Singleton E = node (map_p
       (\<lambda>(n, ms, members, superclassRef, supercallArgs).
          case recover [ms, members, supercallArgs] of
            (purged, problems) \<Rightarrow>
              SingletonNode n superclassRef (purged ! 2) (purged ! 0) (purged ! 1)
                (Some problems))
       (map_p
          (\<lambda>(n, supercall, ms, members).
             (n, ms, members, map_option fst supercall,
              (case supercall of Some (ref, args) \<Rightarrow> args | None \<Rightarrow> [])))
          (then_p (key ''object'')
             (chain_p (optional
                  (then_p (notFollowedBy (or_p (key ''inherits'') (key ''mixed with''))) name))
                (\<lambda>n.
              chain_p (optional (then_p (key ''inherits'')
                  (chain_p FullyQualifiedReference (\<lambda>ref.
                   chain_p (fallback [] (alt [unamedArguments E, namedArguments E])) (\<lambda>args.
                     succeed (ref, args))))))
                (\<lambda>supercall.
              chain_p mixins (\<lambda>ms.
              chain_p (wrap (key ''{'') (key ''}'')
                         (sepBy (optional ws) (alt [Field_p E, Method E, memberError])))
                (\<lambda>members.
                succeed (n, supercall, ms, members)))))))))"

definition Mixin :: "node parser \<Rightarrow> node parser" where
  "Mixin E = node (map_p
       (\<lambda>(n, ms, members).
          case recover [ms, members] of
            (purged, problems) \<Rightarrow> MixinNode n (purged ! 0) (purged ! 1) problems)
       (then_p (key ''mixin'')
          (chain_p name (\<lambda>n.
           chain_p mixins (\<lambda>ms.
           chain_p (wrap (key ''{'') (key ''}'')
                      (sepBy (optional ws) (alt [Field_p E, Method E, memberError])))
             (\<lambda>members.
             succeed (n, ms, members)))))))"


subsubsection \<open>Expressions\<close>

definition closureLiteral :: "node parser \<Rightarrow> node parser" where
  "closureLiteral E =
     chain_p
       (mark (wrap (key ''{'') (key ''}'')
          (chain_p (fallback [] (skip (sepBy (key '','') Parameter) (key ''=>''))) (\<lambda>ps.
           chain_p (many (skip (Sentence E) sentence_end)) (\<lambda>sentences.
             succeed (ps, sentences))))))
       (\<lambda>(start, (ps, sentences), end). (\<lambda>g input i.
          Success i (Closure ps sentences
            (Some (slice input (offset start) (offset end)))
            (Some (Source start end g)))))"

definition Self :: "node parser" where
  "Self = node (result SelfNode (key ''self''))"

definition Super :: "node parser \<Rightarrow> node parser" where
  "Super E = node (then_p (key ''super'') (map_p SuperNode (unamedArguments E)))"

definition New :: "node parser \<Rightarrow> node parser" where
  "New E = alt
     [node (then_p (key ''new'')
        (map_p (\<lambda>singleton. LiteralNode (NodeValue singleton))
           (node (map_p
              (\<lambda>(supercall, ms, members).
                 SingletonNode None (Some (fst supercall)) (snd supercall) ms members None)
              (chain_p
                 (chain_p FullyQualifiedReference (\<lambda>ref.
                  chain_p (alt [unamedArguments E, namedArguments E]) (\<lambda>args.
                    succeed (ref, args))))
                 (\<lambda>supercall.
               chain_p (map_p rev (atLeast_p 1 (then_p (key ''with'') Reference))) (\<lambda>ms.
               chain_p (succeed []) (\<lambda>members.
                 succeed (supercall, ms, members))))))))),
      node (then_p (key ''new'')
        (chain_p FullyQualifiedReference (\<lambda>instantiated.
         chain_p (alt [unamedArguments E, namedArguments E]) (\<lambda>args.
           succeed (NewNode instantiated args)))))]"

definition If_p :: "node parser \<Rightarrow> node parser" where
  "If_p E = node (then_p (key ''if'')
     (chain_p (wrap (key ''('') (key '')'') E) (\<lambda>condition.
      chain_p (inlineableBody E) (\<lambda>thenBody.
      chain_p (optional (then_p (key ''else'') (inlineableBody E))) (\<lambda>elseBody.
        succeed (IfNode condition thenBody elseBody))))))"

definition Throw :: "node parser \<Rightarrow> node parser" where
  "Throw E = node (then_p (key ''throw'') (map_p ThrowNode E))"

definition Catch :: "node parser \<Rightarrow> node parser" where
  "Catch E = node (then_p (key ''catch'')
     (chain_p Parameter (\<lambda>parameter.
      chain_p (optional (then_p (key '':'') Reference)) (\<lambda>parameterType.
      chain_p (inlineableBody E) (\<lambda>body.
        succeed (CatchNode parameter parameterType body))))))"

definition Try :: "node parser \<Rightarrow> node parser" where
  "Try E = node (then_p (key ''try'')
     (chain_p (inlineableBody E) (\<lambda>body.
      chain_p (many (Catch E)) (\<lambda>catches.
      chain_p (optional (then_p (key ''then always'') (inlineableBody E))) (\<lambda>always.
        succeed (TryNode body catches always))))))"

definition Literal :: "node parser \<Rightarrow> node parser" where
  "Literal E = alt
     [closureLiteral E,
      node (map_p LiteralNode (alt
        [result Null (key ''null''),
         result (Boolean True) (key ''true''),
         result (Boolean False) (key ''false''),
         map_p Number number,
         map_p (\<lambda>args. NodeValue (NewNode (ReferenceNode ''wollok.lang.List'' None) args None))
           (wrap (key ''['') (key '']'') (sepBy (key '','') E)),
         map_p (\<lambda>args. NodeValue (NewNode (ReferenceNode ''wollok.lang.Set'' None) args None))
           (wrap (key ''#{'') (key ''}'') (sepBy (key '','') E)),
         map_p String stringLiteral,
         map_p NodeValue (Singleton E)]))]"

definition primaryExpression :: "node parser \<Rightarrow> node parser" where
  "primaryExpression E = alt
     [Self, Super E, If_p E, New E, Throw E, Try E, Literal E, Reference,
      wrap (key ''('') (key '')'') E]"

text \<open>The step of the fold that \<open>Send\<close> runs over the calls of a chain.\<close>

definition send_call :: "index \<Rightarrow> node \<Rightarrow> string \<times> node list \<times> index \<Rightarrow> node" where
  "send_call start receiver call =
     (case call of (message, args, end) \<Rightarrow>
        SendNode receiver message args (Some (Source start end None)))"

definition Send :: "node parser \<Rightarrow> node parser" where
  "Send E =
     chain_p index_p (\<lambda>start.
     chain_p (primaryExpression E) (\<lambda>initial.
     chain_p (atLeast_p 1
        (chain_p (then_p (key ''.'') name) (\<lambda>message.
         chain_p (alt [unamedArguments E, times_p 1 (closureLiteral E)]) (\<lambda>args.
         chain_p index_p (\<lambda>end.
           succeed (message, args, end))))))
       (\<lambda>calls.
       succeed (foldl (send_call start) initial calls))))"

text \<open>
  \<open>PREFIX_OPERATORS[message]\<close>. The message comes from \<open>operator(keys(PREFIX_OPERATORS))\<close>, so
  the lookup finds it; the other branch is never taken.
\<close>

definition prefix_message :: "string \<Rightarrow> string" where
  "prefix_message message =
     (case map_of PREFIX_OPERATORS message of Some m \<Rightarrow> m | None \<Rightarrow> [])"

definition prefix_call :: "index \<Rightarrow> index \<times> string \<Rightarrow> node \<Rightarrow> node" where
  "prefix_call end call receiver =
     (case call of (start, message) \<Rightarrow>
        SendNode receiver (prefix_message message) [] (Some (Source start end None)))"

definition prefixOperation :: "node parser \<Rightarrow> node parser" where
  "prefixOperation E =
     chain_p (many (chain_p index_p (\<lambda>start.
                chain_p (operator (map fst PREFIX_OPERATORS)) (\<lambda>message.
                  succeed (start, message))))) (\<lambda>calls.
     chain_p (alt [Send E, primaryExpression E]) (\<lambda>initial.
     chain_p index_p (\<lambda>end.
       succeed (foldr (prefix_call end) calls initial))))"

text \<open>\<open>String.prototype.trim\<close>\<close>

definition trim_js :: "string \<Rightarrow> string" where
  "trim_js s = rev (dropWhile is_space (rev (dropWhile is_space s)))"

text \<open>The step of the fold that \<open>infixOperation\<close> runs over the operators of a level.\<close>

definition infix_call :: "index \<Rightarrow> node \<Rightarrow> string \<times> node list \<times> index \<Rightarrow> node" where
  "infix_call start receiver call =
     (case call of (message, args, end) \<Rightarrow>
        SendNode receiver (trim_js message)
          (if message \<in> set LAZY_OPERATORS then [Closure [] args None None] else args)
          (Some (Source start end None)))"

text \<open>
  \<open>infixOperation(precedenceLevel)\<close>. The source calls it with the levels 0 to 7 only; at
  any other level \<open>INFIX_OPERATORS[precedenceLevel]\<close> is undefined and building the parser
  throws.
\<close>

function infixOperation :: "node parser \<Rightarrow> nat \<Rightarrow> node parser" where
  "infixOperation E precedenceLevel =
     (if precedenceLevel < length INFIX_OPERATORS then
        (let argument =
               (if precedenceLevel < length INFIX_OPERATORS - 1
                then infixOperation E (precedenceLevel + 1)
                else prefixOperation E)
         in chain_p index_p (\<lambda>start.
            chain_p argument (\<lambda>initial.
            chain_p (many
               (chain_p (operator (INFIX_OPERATORS ! precedenceLevel)) (\<lambda>message.
                chain_p (times_p 1 argument) (\<lambda>args.
                chain_p index_p (\<lambda>end.
                  succeed (message, args, end))))))
              (\<lambda>calls.
              succeed (foldl (infix_call start) initial calls)))))
      else (\<lambda>g input i. Thrown))"
  by pat_completeness auto
termination
  by (relation "measure (\<lambda>(E, precedenceLevel). length INFIX_OPERATORS - precedenceLevel)") auto

declare infixOperation.simps [simp del]

text \<open>
  \<open>Expression = lazy(() => infixOperation())\<close>: every reference to \<open>Expression\<close> from inside
  the grammar takes one unit of fuel.
\<close>

primrec Expression :: "nat \<Rightarrow> node parser" where
  "Expression 0 = timeout"
| "Expression (Suc n) = infixOperation (Expression n) 0"

primrec Entity :: "nat \<Rightarrow> node parser" where
  "Entity 0 = timeout"
| "Entity (Suc n) = alt
     [Package (Entity n),
      Class (Expression n),
      Singleton (Expression n),
      Mixin (Expression n),
      Program (Expression n),
      Describe (Expression n),
      Test (Expression n),
      Variable (Expression n)]"

subsubsection \<open>Files\<close>

text \<open>\<open>basename\<close> of the path module, for paths with forward slashes.\<close>

definition basename :: "string \<Rightarrow> string" where
  "basename path =
     rev (takeWhile (\<lambda>c. c \<noteq> CHR ''/'') (dropWhile (\<lambda>c. c = CHR ''/'') (rev path)))"

text \<open>
  \<open>File(fileName)\<close> assigns the module variable and returns the parser of the file. The
  model returns the new value of the variable with the parser; the parser reads the
  variable when it runs.
\<close>

definition File_parser :: "nat \<Rightarrow> string \<Rightarrow> node parser" where
  "File_parser n fileName = node
     (skip
        (chain_p (succeed (takeWhile (\<lambda>c. c \<noteq> CHR ''.'') (basename fileName))) (\<lambda>nm.
         chain_p (skip (sepBy (optional ws) Import) (optional ws)) (\<lambda>imports.
         chain_p (sepBy (optional ws) (Entity n)) (\<lambda>members.
           succeed (PackageNode nm imports members None)))))
        (optional ws))"

definition File :: "nat \<Rightarrow> string \<Rightarrow> string option \<Rightarrow> string option \<times> node parser" where
  "File n fileName g = (Some fileName, File_parser n fileName)"

text \<open>
  \<open>File(fileName).tryParse(text)\<close>, the parse of a file: the value of the module variable
  after the call, and the reply.
\<close>

definition parse :: "nat \<Rightarrow> string \<Rightarrow> string \<Rightarrow> string option \<Rightarrow> string option \<times> node reply" where
  "parse n fileName text g =
     (case File n fileName g of (g', parser) \<Rightarrow> (g', tryParse parser g' text))"


section \<open>Notions used in the statements\<close>

text \<open>A text that is the beginning of a longer one.\<close>

definition proper_prefix :: "string \<Rightarrow> string \<Rightarrow> bool" where
  "proper_prefix a b = (length a < length b \<and> take (length a) b = a)"

text \<open>The offset at which the source of a node starts.\<close>

definition start_offset :: "node \<Rightarrow> nat" where
  "start_offset n = (case source_of n of Some s \<Rightarrow> offset (src_start s) | None \<Rightarrow> 0)"

text \<open>The field \<open>mixins\<close> of a class, a singleton or a mixin.\<close>

fun mixins_of :: "node \<Rightarrow> node list" where
  "mixins_of (ClassNode _ _ ms _ _ _) = ms"
| "mixins_of (SingletonNode _ _ _ ms _ _ _) = ms"
| "mixins_of (MixinNode _ ms _ _ _) = ms"
| "mixins_of _ = []"

text \<open>
  The local constant \<open>argument\<close> of \<open>infixOperation\<close>: the parser of the operands of a
  level, which is the next level, or \<open>prefixOperation\<close> at the last one.
\<close>

definition argument :: "node parser \<Rightarrow> nat \<Rightarrow> node parser" where
  "argument E precedenceLevel =
     (if precedenceLevel < length INFIX_OPERATORS - 1
      then infixOperation E (precedenceLevel + 1)
      else prefixOperation E)"

text \<open>
  The parser that \<open>infixOperation\<close> repeats with \<open>many\<close>: an operator of the level, one
  operand and the index after it.
\<close>

definition application :: "node parser \<Rightarrow> nat \<Rightarrow> (string \<times> node list \<times> index) parser" where
  "application E precedenceLevel =
     chain_p (operator (INFIX_OPERATORS ! precedenceLevel)) (\<lambda>message.
     chain_p (times_p 1 (argument E precedenceLevel)) (\<lambda>args.
     chain_p index_p (\<lambda>end.
       succeed (message, args, end))))"

section \<open>Evaluation of parsers on a given input\<close>

text \<open>
  The equations of the definitions, applied to the module variable, the input and the
  index. With them the simplifier runs a parser on a concrete text step by step, and
  looks at the continuation of a parser only once the parser before it has replied.
\<close>

named_theorems ev \<open>parsers applied to an input, one step of evaluation\<close>

lemmas succeed_ev [ev] = succeed_def [THEN fun_cong, THEN fun_cong, THEN fun_cong]
lemmas fail_p_ev [ev] = fail_p_def [THEN fun_cong, THEN fun_cong, THEN fun_cong]
lemmas timeout_ev [ev] = timeout_def [THEN fun_cong, THEN fun_cong, THEN fun_cong]
lemmas chain_p_ev [ev] = chain_p_def [THEN fun_cong, THEN fun_cong, THEN fun_cong]
lemmas map_p_ev [ev] = map_p_def [THEN fun_cong, THEN fun_cong, THEN fun_cong]
lemmas result_ev [ev] = result_def [THEN fun_cong, THEN fun_cong, THEN fun_cong]
lemmas then_p_ev [ev] = then_p_def [THEN fun_cong, THEN fun_cong, THEN fun_cong]
lemmas skip_ev [ev] = skip_def [THEN fun_cong, THEN fun_cong, THEN fun_cong]
lemmas or_p_ev [ev] = or_p_def [THEN fun_cong, THEN fun_cong, THEN fun_cong]
lemmas fallback_ev [ev] = fallback_def [THEN fun_cong, THEN fun_cong, THEN fun_cong]
lemmas optional_ev [ev] = optional_def [THEN fun_cong, THEN fun_cong, THEN fun_cong]
lemmas check_ev [ev] = check_def [THEN fun_cong, THEN fun_cong, THEN fun_cong]
lemmas void_ev [ev] = void_def [THEN fun_cong, THEN fun_cong, THEN fun_cong]
lemmas atLeast_p_ev [ev] = atLeast_p_def [THEN fun_cong, THEN fun_cong, THEN fun_cong]
lemmas sepBy1_ev [ev] = sepBy1_def [THEN fun_cong, THEN fun_cong, THEN fun_cong]
lemmas sepBy_ev [ev] = sepBy_def [THEN fun_cong, THEN fun_cong, THEN fun_cong]
lemmas notFollowedBy_ev [ev] = notFollowedBy_def [THEN fun_cong, THEN fun_cong, THEN fun_cong]
lemmas index_p_ev [ev] = index_p_def [THEN fun_cong, THEN fun_cong, THEN fun_cong]
lemmas mark_ev [ev] = mark_def [THEN fun_cong, THEN fun_cong, THEN fun_cong]
lemmas wrap_ev [ev] = wrap_def [THEN fun_cong, THEN fun_cong, THEN fun_cong]
lemmas trim_ev [ev] = trim_def [THEN fun_cong, THEN fun_cong, THEN fun_cong]
lemmas string_p_ev [ev] = string_p_def [THEN fun_cong, THEN fun_cong, THEN fun_cong]
lemmas any_ev [ev] = any_def [THEN fun_cong, THEN fun_cong, THEN fun_cong]
lemmas takeWhile_p_ev [ev] = takeWhile_p_def [THEN fun_cong, THEN fun_cong, THEN fun_cong]
lemmas eof_ev [ev] = eof_def [THEN fun_cong, THEN fun_cong, THEN fun_cong]
lemmas SOURCE_FILE_ev [ev] = SOURCE_FILE_def [THEN fun_cong, THEN fun_cong, THEN fun_cong]
lemmas word_char_ev [ev] = word_char_def [THEN fun_cong, THEN fun_cong, THEN fun_cong]
lemmas whitespace_ev [ev] = whitespace_def [THEN fun_cong, THEN fun_cong, THEN fun_cong]
lemmas comment_ev [ev] = comment_def [THEN fun_cong, THEN fun_cong, THEN fun_cong]
lemmas ws_ev [ev] = ws_def [THEN fun_cong, THEN fun_cong, THEN fun_cong]
lemmas key_ev [ev] = key_def [THEN fun_cong, THEN fun_cong, THEN fun_cong]
lemmas name_ev [ev] = name_def [THEN fun_cong, THEN fun_cong, THEN fun_cong]
lemmas number_ev [ev] = number_def [THEN fun_cong, THEN fun_cong, THEN fun_cong]
lemmas quoted_ev [ev] = quoted_def [THEN fun_cong, THEN fun_cong, THEN fun_cong]
lemmas stringLiteral_ev [ev] = stringLiteral_def [THEN fun_cong, THEN fun_cong, THEN fun_cong]
lemmas error_ev [ev] = error_def [THEN fun_cong, THEN fun_cong, THEN fun_cong]
lemmas node_ev [ev] = node_def [THEN fun_cong, THEN fun_cong, THEN fun_cong]
lemmas FullyQualifiedReference_ev [ev] = FullyQualifiedReference_def [THEN fun_cong, THEN fun_cong, THEN fun_cong]
lemmas Import_ev [ev] = Import_def [THEN fun_cong, THEN fun_cong, THEN fun_cong]
lemmas Reference_ev [ev] = Reference_def [THEN fun_cong, THEN fun_cong, THEN fun_cong]
lemmas Parameter_ev [ev] = Parameter_def [THEN fun_cong, THEN fun_cong, THEN fun_cong]
lemmas parameters_ev [ev] = parameters_def [THEN fun_cong, THEN fun_cong, THEN fun_cong]
lemmas operator_ev [ev] = operator_def [THEN fun_cong, THEN fun_cong, THEN fun_cong]
lemmas sentence_end_ev [ev] = sentence_end_def [THEN fun_cong, THEN fun_cong, THEN fun_cong]
lemmas NamedArgument_ev [ev] = NamedArgument_def [THEN fun_cong, THEN fun_cong, THEN fun_cong]
lemmas unamedArguments_ev [ev] = unamedArguments_def [THEN fun_cong, THEN fun_cong, THEN fun_cong]
lemmas namedArguments_ev [ev] = namedArguments_def [THEN fun_cong, THEN fun_cong, THEN fun_cong]
lemmas Variable_ev [ev] = Variable_def [THEN fun_cong, THEN fun_cong, THEN fun_cong]
lemmas Return_ev [ev] = Return_def [THEN fun_cong, THEN fun_cong, THEN fun_cong]
lemmas Assignment_ev [ev] = Assignment_def [THEN fun_cong, THEN fun_cong, THEN fun_cong]
lemmas Sentence_ev [ev] = Sentence_def [THEN fun_cong, THEN fun_cong, THEN fun_cong]
lemmas Body_ev [ev] = Body_def [THEN fun_cong, THEN fun_cong, THEN fun_cong]
lemmas inlineableBody_ev [ev] = inlineableBody_def [THEN fun_cong, THEN fun_cong, THEN fun_cong]
lemmas memberError_ev [ev] = memberError_def [THEN fun_cong, THEN fun_cong, THEN fun_cong]
lemmas classMemberError_ev [ev] = classMemberError_def [THEN fun_cong, THEN fun_cong, THEN fun_cong]
lemmas Field_p_ev [ev] = Field_p_def [THEN fun_cong, THEN fun_cong, THEN fun_cong]
lemmas Method_ev [ev] = Method_def [THEN fun_cong, THEN fun_cong, THEN fun_cong]
lemmas Constructor_ev [ev] = Constructor_def [THEN fun_cong, THEN fun_cong, THEN fun_cong]
lemmas Fixture_ev [ev] = Fixture_def [THEN fun_cong, THEN fun_cong, THEN fun_cong]
lemmas entityError_ev [ev] = entityError_def [THEN fun_cong, THEN fun_cong, THEN fun_cong]
lemmas Package_ev [ev] = Package_def [THEN fun_cong, THEN fun_cong, THEN fun_cong]
lemmas Program_ev [ev] = Program_def [THEN fun_cong, THEN fun_cong, THEN fun_cong]
lemmas Test_ev [ev] = Test_def [THEN fun_cong, THEN fun_cong, THEN fun_cong]
lemmas Describe_ev [ev] = Describe_def [THEN fun_cong, THEN fun_cong, THEN fun_cong]
lemmas mixins_ev [ev] = mixins_def [THEN fun_cong, THEN fun_cong, THEN fun_cong]
lemmas Class_ev [ev] = Class_def [THEN fun_cong, THEN fun_cong, THEN fun_cong]
lemmas Singleton_ev [ev] = Singleton_def [THEN fun_cong, THEN fun_cong, THEN fun_cong]
lemmas Mixin_ev [ev] = Mixin_def [THEN fun_cong, THEN fun_cong, THEN fun_cong]
lemmas closureLiteral_ev [ev] = closureLiteral_def [THEN fun_cong, THEN fun_cong, THEN fun_cong]
lemmas Self_ev [ev] = Self_def [THEN fun_cong, THEN fun_cong, THEN fun_cong]
lemmas Super_ev [ev] = Super_def [THEN fun_cong, THEN fun_cong, THEN fun_cong]
lemmas New_ev [ev] = New_def [THEN fun_cong, THEN fun_cong, THEN fun_cong]
lemmas If_p_ev [ev] = If_p_def [THEN fun_cong, THEN fun_cong, THEN fun_cong]
lemmas Throw_ev [ev] = Throw_def [THEN fun_cong, THEN fun_cong, THEN fun_cong]
lemmas Catch_ev [ev] = Catch_def [THEN fun_cong, THEN fun_cong, THEN fun_cong]
lemmas Try_ev [ev] = Try_def [THEN fun_cong, THEN fun_cong, THEN fun_cong]
lemmas Literal_ev [ev] = Literal_def [THEN fun_cong, THEN fun_cong, THEN fun_cong]
lemmas primaryExpression_ev [ev] = primaryExpression_def [THEN fun_cong, THEN fun_cong, THEN fun_cong]
lemmas Send_ev [ev] = Send_def [THEN fun_cong, THEN fun_cong, THEN fun_cong]
lemmas prefixOperation_ev [ev] = prefixOperation_def [THEN fun_cong, THEN fun_cong, THEN fun_cong]
lemmas File_parser_ev [ev] = File_parser_def [THEN fun_cong, THEN fun_cong, THEN fun_cong]
lemmas many_ev [ev] = many.simps
lemmas infixOperation_ev [ev] = infixOperation.simps [THEN fun_cong, THEN fun_cong, THEN fun_cong]
lemmas times_p_ev [ev] = times_p.simps [THEN fun_cong, THEN fun_cong, THEN fun_cong]
lemmas Expression_ev [ev] = Expression.simps [THEN fun_cong, THEN fun_cong, THEN fun_cong]
lemmas Entity_ev [ev] = Entity.simps [THEN fun_cong, THEN fun_cong, THEN fun_cong]

lemma alt_Nil_ev [ev]: "alt [] g input i = Failure"
  by (simp add: fail_p_def)

lemma alt_Cons_ev [ev]:
  "alt (p # ps) g input i = (case p g input i of Failure \<Rightarrow> alt ps g input i | r \<Rightarrow> r)"
  by simp

declare alt.simps [simp del] times_p.simps [simp del] Expression.simps [simp del]
  Entity.simps [simp del]

lemmas chars = is_space_def is_word_def is_digit_def is_letter_def is_hex_def

lemmas tables = ASSIGNATION_OPERATORS_def LAZY_OPERATORS_def INFIX_OPERATORS_def
  PREFIX_OPERATORS_def

section \<open>Replies of the combinators\<close>

lemma succeed_Success [simp]: "succeed v g input i = Success j b \<longleftrightarrow> j = i \<and> b = v"
  by (auto simp: succeed_def)

lemma chain_p_Success:
  "chain_p p f g input i = Success j b \<longleftrightarrow>
     (\<exists>k v. p g input i = Success k v \<and> f v g input k = Success j b)"
  by (auto simp: chain_p_def split: reply.splits)

lemma map_p_Success:
  "map_p f p g input i = Success j b \<longleftrightarrow> (\<exists>v. p g input i = Success j v \<and> b = f v)"
  by (auto simp: map_p_def chain_p_Success)

lemma result_Success:
  "result b p g input i = Success j c \<longleftrightarrow> (\<exists>v. p g input i = Success j v) \<and> c = b"
  by (auto simp: result_def map_p_Success)

lemma then_p_Success:
  "then_p p q g input i = Success j b \<longleftrightarrow>
     (\<exists>k v. p g input i = Success k v \<and> q g input k = Success j b)"
  by (simp add: then_p_def chain_p_Success)

lemma skip_Success:
  "skip p q g input i = Success j b \<longleftrightarrow>
     (\<exists>k v. p g input i = Success k b \<and> q g input k = Success j v)"
  by (auto simp: skip_def chain_p_Success)

lemma wrap_Success:
  "wrap l r p g input i = Success j b \<longleftrightarrow>
     (\<exists>k k' u w. l g input i = Success k u \<and> p g input k = Success k' b
        \<and> r g input k' = Success j w)"
  by (auto simp: wrap_def chain_p_Success)

lemma alt_Success: "alt ps g input i = Success j v \<Longrightarrow> \<exists>p \<in> set ps. p g input i = Success j v"
  by (induction ps) (auto simp: ev split: reply.splits)

lemma alt_first: "p g input i = Success j v \<Longrightarrow> alt (p # ps) g input i = Success j v"
  by (simp add: ev)

lemma alt_next: "p g input i = Failure \<Longrightarrow> alt (p # ps) g input i = alt ps g input i"
  by (simp add: ev)

lemma index_p_Success [simp]:
  "index_p g input i = Success j s \<longleftrightarrow> j = i \<and> s = makeLineColumnIndex input i"
  by (auto simp: index_p_def)

lemma SOURCE_FILE_Success [simp]: "SOURCE_FILE g input i = Success j f \<longleftrightarrow> j = i \<and> f = g"
  by (auto simp: SOURCE_FILE_def)

lemma offset_makeLineColumnIndex [simp]: "offset (makeLineColumnIndex input i) = i"
  by (simp add: makeLineColumnIndex_def Let_def)

lemma node_Success:
  "node parser g input i = Success j n \<longleftrightarrow>
     (\<exists>k u payload. optional ws g input i = Success k u \<and> parser g input k = Success j payload
        \<and> n = payload (Some (Source (makeLineColumnIndex input k)
                                 (makeLineColumnIndex input j) g)))"
  by (auto simp: node_def chain_p_Success then_p_Success)


lemma string_p_result: "string_p s g input i = Success j r \<Longrightarrow> r = s \<and> j = i + length s"
  by (auto simp: string_p_def split: if_splits)

lemma key_result: "key s g input i = Success j r \<Longrightarrow> r = s"
  by (auto simp: key_def trim_def wrap_Success skip_Success dest: string_p_result split: if_splits)

lemma many_Success_cases:
  "many p g input i = Success j vs \<Longrightarrow>
     (p g input i = Failure \<and> j = i \<and> vs = []) \<or>
     (\<exists>k v vs'. p g input i = Success k v \<and> i < k \<and> k \<le> length input
        \<and> many p g input k = Success j vs' \<and> vs = v # vs')"
  by (subst (asm) many.simps) (auto split: reply.splits if_splits)

lemma times_p_one_Success:
  "times_p (Suc 0) p g input i = Success j vs \<longleftrightarrow> (\<exists>v. p g input i = Success j v \<and> vs = [v])"
  by (auto simp: times_p.simps chain_p_Success)

section \<open>Lazy operators\<close>

text \<open>\<open>infixOperation\<close> in terms of its operand and of the parser it repeats.\<close>

lemma infixOperation_unfold:
  assumes "precedenceLevel < length INFIX_OPERATORS"
  shows "infixOperation E precedenceLevel =
     chain_p index_p (\<lambda>start.
     chain_p (argument E precedenceLevel) (\<lambda>initial.
     chain_p (many (application E precedenceLevel)) (\<lambda>calls.
       succeed (foldl (infix_call start) initial calls))))"
  using assms
  by (subst infixOperation.simps) (simp add: Let_def argument_def application_def)

lemma application_Success:
  "application E precedenceLevel g input a = Success b call \<longleftrightarrow>
     (\<exists>a1 message rhs.
        operator (INFIX_OPERATORS ! precedenceLevel) g input a = Success a1 message \<and>
        argument E precedenceLevel g input a1 = Success b rhs \<and>
        call = (message, [rhs], makeLineColumnIndex input b))"
  unfolding application_def
  by (simp only: chain_p_Success One_nat_def times_p_one_Success index_p_Success succeed_Success)
    auto

lemma infixOperation_Success:
  assumes "precedenceLevel < length INFIX_OPERATORS"
  shows "infixOperation E precedenceLevel g input i = Success j e \<longleftrightarrow>
     (\<exists>k initial calls.
        argument E precedenceLevel g input i = Success k initial \<and>
        many (application E precedenceLevel) g input k = Success j calls \<and>
        e = foldl (infix_call (makeLineColumnIndex input i)) initial calls)"
  unfolding infixOperation_unfold [OF assms]
  by (simp only: chain_p_Success index_p_Success succeed_Success) auto

lemma infix_call_lazy:
  assumes "message \<in> {''||'', ''&&'', ''or'', ''and''}"
  shows "infix_call start receiver (message, [rhs], end) =
     SendNode receiver message [Closure [] [rhs] None None] (Some (Source start end None))"
  using assms by (auto simp: infix_call_def LAZY_OPERATORS_def trim_js_def is_space_def)

lemma infixOperation_once:
  assumes level: "precedenceLevel < length INFIX_OPERATORS"
    and receiver: "argument E precedenceLevel g input i = Success k receiver"
    and message: "operator (INFIX_OPERATORS ! precedenceLevel) g input k = Success k1 message"
    and rhs: "argument E precedenceLevel g input k1 = Success j rhs"
    and within: "k < j" "j \<le> length input"
    and last: "operator (INFIX_OPERATORS ! precedenceLevel) g input j = Failure"
  shows "infixOperation E precedenceLevel g input i = Success j
     (infix_call (makeLineColumnIndex input i) receiver
        (message, [rhs], makeLineColumnIndex input j))"
proof -
  have "application E precedenceLevel g input k =
      Success j (message, [rhs], makeLineColumnIndex input j)"
    using message rhs by (simp add: application_Success)
  moreover have "application E precedenceLevel g input j = Failure"
    using last by (simp add: application_def chain_p_ev)
  ultimately have "many (application E precedenceLevel) g input k =
      Success j [(message, [rhs], makeLineColumnIndex input j)]"
    using within by (simp add: many.simps [of _ _ _ k] many.simps [of _ _ _ j])
  with receiver show ?thesis
    by (simp add: infixOperation_unfold [OF level] chain_p_ev index_p_ev succeed_ev)
qed

text \<open>
  Claim C2. At each level of precedence, \<open>infixOperation\<close> succeeds exactly when its operand
  parses and the applications that follow parse, and its result is the fold of \<open>infix_call\<close>
  over these applications, from the left. An application parses exactly when an operator
  of the level parses and then one operand; it has one argument, that operand. For a lazy
  operator (\<open>||\<close>, \<open>&&\<close>, \<open>or\<close>, \<open>and\<close>) the Send that \<open>infix_call\<close> builds has exactly one
  argument: a closure of no parameters whose only sentence is the right-hand side. So a
  text \<open>receiver lazy rhs\<close> with no other operator of the level after it parses to
  \<open>Send(receiver, lazy, [Closure{sentences: [rhs]}])\<close>.
\<close>

theorem infixOperation_lazy_operand:
  "(precedenceLevel < length INFIX_OPERATORS \<longrightarrow>
      (infixOperation E precedenceLevel g input i = Success j e \<longleftrightarrow>
         (\<exists>k initial calls.
            argument E precedenceLevel g input i = Success k initial \<and>
            many (application E precedenceLevel) g input k = Success j calls \<and>
            e = foldl (infix_call (makeLineColumnIndex input i)) initial calls)))
   \<and> (application E precedenceLevel g input a = Success b call \<longleftrightarrow>
         (\<exists>a1 message rhs.
            operator (INFIX_OPERATORS ! precedenceLevel) g input a = Success a1 message \<and>
            argument E precedenceLevel g input a1 = Success b rhs \<and>
            call = (message, [rhs], makeLineColumnIndex input b)))
   \<and> (lazy \<in> {''||'', ''&&'', ''or'', ''and''} \<longrightarrow>
         infix_call start receiver (lazy, [rhs], end) =
           SendNode receiver lazy [Closure [] [rhs] None None] (Some (Source start end None)))
   \<and> (precedenceLevel < length INFIX_OPERATORS \<and>
       lazy \<in> {''||'', ''&&'', ''or'', ''and''} \<and>
       argument E precedenceLevel g input i = Success k receiver \<and>
       operator (INFIX_OPERATORS ! precedenceLevel) g input k = Success k1 lazy \<and>
       argument E precedenceLevel g input k1 = Success j rhs \<and>
       k < j \<and> j \<le> length input \<and>
       operator (INFIX_OPERATORS ! precedenceLevel) g input j = Failure \<longrightarrow>
         infixOperation E precedenceLevel g input i = Success j
           (SendNode receiver lazy [Closure [] [rhs] None None]
              (Some (Source (makeLineColumnIndex input i) (makeLineColumnIndex input j) None))))"
proof (intro conjI impI)
  assume "precedenceLevel < length INFIX_OPERATORS"
  then show "infixOperation E precedenceLevel g input i = Success j e \<longleftrightarrow>
         (\<exists>k initial calls.
            argument E precedenceLevel g input i = Success k initial \<and>
            many (application E precedenceLevel) g input k = Success j calls \<and>
            e = foldl (infix_call (makeLineColumnIndex input i)) initial calls)"
    by (rule infixOperation_Success)
next
  show "application E precedenceLevel g input a = Success b call \<longleftrightarrow>
         (\<exists>a1 message rhs.
            operator (INFIX_OPERATORS ! precedenceLevel) g input a = Success a1 message \<and>
            argument E precedenceLevel g input a1 = Success b rhs \<and>
            call = (message, [rhs], makeLineColumnIndex input b))"
    by (rule application_Success)
next
  assume "lazy \<in> {''||'', ''&&'', ''or'', ''and''}"
  then show "infix_call start receiver (lazy, [rhs], end) =
           SendNode receiver lazy [Closure [] [rhs] None None] (Some (Source start end None))"
    by (rule infix_call_lazy)
next
  assume all: "precedenceLevel < length INFIX_OPERATORS \<and>
       lazy \<in> {''||'', ''&&'', ''or'', ''and''} \<and>
       argument E precedenceLevel g input i = Success k receiver \<and>
       operator (INFIX_OPERATORS ! precedenceLevel) g input k = Success k1 lazy \<and>
       argument E precedenceLevel g input k1 = Success j rhs \<and>
       k < j \<and> j \<le> length input \<and>
       operator (INFIX_OPERATORS ! precedenceLevel) g input j = Failure"
  then have level: "precedenceLevel < length INFIX_OPERATORS"
    and receiver: "argument E precedenceLevel g input i = Success k receiver"
    and message: "operator (INFIX_OPERATORS ! precedenceLevel) g input k = Success k1 lazy"
    and rhs: "argument E precedenceLevel g input k1 = Success j rhs"
    and within: "k < j" "j \<le> length input"
    and last: "operator (INFIX_OPERATORS ! precedenceLevel) g input j = Failure"
    by simp_all
  have "infixOperation E precedenceLevel g input i = Success j
     (infix_call (makeLineColumnIndex input i) receiver
        (lazy, [rhs], makeLineColumnIndex input j))"
    using level receiver message rhs within last by (rule infixOperation_once)
  with all show "infixOperation E precedenceLevel g input i = Success j
           (SendNode receiver lazy [Closure [] [rhs] None None]
              (Some (Source (makeLineColumnIndex input i) (makeLineColumnIndex input j) None)))"
    by (simp add: infix_call_lazy)
qed

text \<open>The expressions \<open>a || b\<close> and \<open>a and b\<close>.\<close>

theorem infixOperation_lazy_operand_witness:
  "infixOperation (Expression (Suc 0)) 0 None ''a || b'' 0 = Success 6
     (SendNode (ReferenceNode ''a'' (Some (Source (Index 0 1 1) (Index 1 1 2) None))) ''||''
        [Closure [] [ReferenceNode ''b'' (Some (Source (Index 5 1 6) (Index 6 1 7) None))]
           None None]
        (Some (Source (Index 0 1 1) (Index 6 1 7) None)))
   \<and> infixOperation (Expression (Suc 0)) 1 None ''a and b'' 0 = Success 7
     (SendNode (ReferenceNode ''a'' (Some (Source (Index 0 1 1) (Index 1 1 2) None))) ''and''
        [Closure [] [ReferenceNode ''b'' (Some (Source (Index 6 1 7) (Index 7 1 8) None))]
           None None]
        (Some (Source (Index 0 1 1) (Index 7 1 8) None)))"
proof (intro conjI)
  let ?E = "Expression (Suc 0)"
  let ?a = "ReferenceNode ''a'' (Some (Source (Index 0 1 1) (Index 1 1 2) None))"
  let ?b = "ReferenceNode ''b'' (Some (Source (Index 5 1 6) (Index 6 1 7) None))"
  let ?b' = "ReferenceNode ''b'' (Some (Source (Index 6 1 7) (Index 7 1 8) None))"
  have level: "(0::nat) < length INFIX_OPERATORS" "(1::nat) < length INFIX_OPERATORS"
    by (simp_all add: INFIX_OPERATORS_def)
  have a: "argument ?E 0 None ''a || b'' 0 = Success 1 ?a"
    by (simp add: argument_def ev chars tables Let_def makeLineColumnIndex_def)
  have b: "argument ?E 0 None ''a || b'' 5 = Success 6 ?b"
    by (simp add: argument_def ev chars tables Let_def makeLineColumnIndex_def)
  have op: "operator (INFIX_OPERATORS ! 0) None ''a || b'' 1 = Success 5 ''||''"
    "operator (INFIX_OPERATORS ! 0) None ''a || b'' 6 = Failure"
    by (simp_all add: ev chars tables Let_def)
  from level(1) a op(1) b op(2)
    infixOperation_lazy_operand [where precedenceLevel = 0 and E = ?E and g = None
      and input = "''a || b''" and i = 0 and k = 1 and ?k1.0 = 5 and j = 6
      and lazy = "''||''" and receiver = ?a and rhs = ?b,
      THEN conjunct2, THEN conjunct2, THEN conjunct2]
  show "infixOperation ?E 0 None ''a || b'' 0 = Success 6
     (SendNode ?a ''||'' [Closure [] [?b] None None]
        (Some (Source (Index 0 1 1) (Index 6 1 7) None)))"
    by (simp add: makeLineColumnIndex_def)
  have a': "argument ?E 1 None ''a and b'' 0 = Success 1 ?a"
    by (simp add: argument_def ev chars tables Let_def makeLineColumnIndex_def)
  have b': "argument ?E 1 None ''a and b'' 6 = Success 7 ?b'"
    by (simp add: argument_def ev chars tables Let_def makeLineColumnIndex_def)
  have op': "operator (INFIX_OPERATORS ! 1) None ''a and b'' 1 = Success 6 ''and''"
    "operator (INFIX_OPERATORS ! 1) None ''a and b'' 7 = Failure"
    by (simp_all add: ev chars tables Let_def)
  from level(2) a' op'(1) b' op'(2)
    infixOperation_lazy_operand [where precedenceLevel = 1 and E = ?E and g = None
      and input = "''a and b''" and i = 0 and k = 1 and ?k1.0 = 6 and j = 7
      and lazy = "''and''" and receiver = ?a and rhs = ?b',
      THEN conjunct2, THEN conjunct2, THEN conjunct2]
  show "infixOperation ?E 1 None ''a and b'' 0 = Success 7
     (SendNode ?a ''and'' [Closure [] [?b'] None None]
        (Some (Source (Index 0 1 1) (Index 7 1 8) None)))"
    by (simp add: makeLineColumnIndex_def)
qed

section \<open>Methods with an expression for a body\<close>

text \<open>
  Claim C4. When \<open>= Expression\<close> follows the parameters of a method, the body of the Method
  node is a Body of one sentence, the Return of the parsed expression, and the source of
  that Body is the source of the expression.
\<close>


theorem Method_expression_body:
  assumes "optional ws g input i = Success k u"
    and "check (key ''override'') g input k = Success k0 isOverride"
    and "key ''method'' g input k0 = Success k1 m"
    and "alt [name, operator ALL_OPERATORS] g input k1 = Success k2 n"
    and "parameters g input k2 = Success k3 ps"
    and "key ''='' g input k3 = Success k4 eq"
    and "E g input k4 = Success j v"
  shows "Method E g input i = Success j
     (MethodNode isOverride n ps
        (BodyValue (BodyNode [ReturnNode (Some v) None] (source_of v)))
        (Some (Source (makeLineColumnIndex input k) (makeLineColumnIndex input j) g)))"
proof -
  have body: "alt [then_p (key ''='')
                (map_p (\<lambda>v. BodyValue (BodyNode [ReturnNode (Some v) None] (source_of v))) E),
              result Native (key ''native''),
              map_p (\<lambda>b. case b of Some body \<Rightarrow> BodyValue body | None \<Rightarrow> Absent)
                (optional (Body E))] g input k3
      = Success j (BodyValue (BodyNode [ReturnNode (Some v) None] (source_of v)))"
    using assms(6,7) by (intro alt_first) (simp add: then_p_ev map_p_ev chain_p_ev succeed_ev)
  show ?thesis
    using assms(1-5) body
    by (simp add: Method_ev node_ev then_p_ev chain_p_ev succeed_ev index_p_ev SOURCE_FILE_ev)
qed

text \<open>The method of \<open>class C { method m() = 1 + 2 }\<close>.\<close>


theorem Method_expression_body_witness:
  "Method (Expression (Suc (Suc 0))) None ''class C { method m() = 1 + 2 }'' 9 = Success 28
     (MethodNode False ''m'' []
        (BodyValue (BodyNode
           [ReturnNode
              (Some (SendNode
                 (LiteralNode (Number ''1'') (Some (Source (Index 23 1 24) (Index 24 1 25) None)))
                 ''+''
                 [LiteralNode (Number ''2'') (Some (Source (Index 27 1 28) (Index 28 1 29) None))]
                 (Some (Source (Index 23 1 24) (Index 28 1 29) None))))
              None]
           (Some (Source (Index 23 1 24) (Index 28 1 29) None))))
        (Some (Source (Index 10 1 11) (Index 28 1 29) None)))"
proof -
  let ?text = "''class C { method m() = 1 + 2 }''"
  have 1: "optional ws None ?text 9 = Success 10 (Some ['' ''])"
    by (simp add: ev chars Let_def)
  have 2: "check (key ''override'') None ?text 10 = Success 10 False"
    by (simp add: ev chars Let_def)
  have 3: "key ''method'' None ?text 10 = Success 17 ''method''"
    by (simp add: ev chars Let_def)
  have 4: "alt [name, operator ALL_OPERATORS] None ?text 17 = Success 18 ''m''"
    by (simp add: ev chars Let_def)
  have 5: "parameters None ?text 18 = Success 21 []"
    by (simp add: ev chars Let_def makeLineColumnIndex_def)
  have 6: "key ''='' None ?text 21 = Success 23 ''=''"
    by (simp add: ev chars Let_def)
  have 7: "Expression (Suc (Suc 0)) None ?text 23 = Success 28
       (SendNode
          (LiteralNode (Number ''1'') (Some (Source (Index 23 1 24) (Index 24 1 25) None)))
          ''+''
          [LiteralNode (Number ''2'') (Some (Source (Index 27 1 28) (Index 28 1 29) None))]
          (Some (Source (Index 23 1 24) (Index 28 1 29) None)))"
    by (simp add: ev chars tables Let_def makeLineColumnIndex_def infix_call_def prefix_call_def
        trim_js_def)
  from Method_expression_body [where E = "Expression (Suc (Suc 0))", OF 1 2 3 4 5 6 7]
  show ?thesis
    by (simp add: makeLineColumnIndex_def)
qed

section \<open>The order of the operators in a method name\<close>


lemma rank_values:
  "rank (CHR ''-'') = 1" "rank (CHR '':'') = 4" "rank (CHR ''!'') = 5" "rank (CHR ''?'') = 6"
  "rank (CHR ''.'') = 7" "rank (CHR ''*'') = 15" "rank (CHR ''/'') = 16" "rank (CHR ''&'') = 17"
  "rank (CHR ''%'') = 19" "rank (CHR ''+'') = 21" "rank (CHR ''<'') = 22" "rank (CHR ''='') = 23"
  "rank (CHR ''>'') = 24" "rank (CHR ''|'') = 25"
  "rank (CHR ''a'') = 38" "rank (CHR ''d'') = 41" "rank (CHR ''e'') = 42" "rank (CHR ''g'') = 44"
  "rank (CHR ''i'') = 46" "rank (CHR ''l'') = 49" "rank (CHR ''n'') = 51" "rank (CHR ''o'') = 52"
  "rank (CHR ''p'') = 53" "rank (CHR ''r'') = 55" "rank (CHR ''s'') = 56" "rank (CHR ''t'') = 57"
  "rank (CHR ''u'') = 58" "rank (CHR ''v'') = 59"
  by (simp_all add: rank_def collation_def)

lemma ALL_OPERATORS_value:
  "ALL_OPERATORS =
    [''plus'', ''or'', ''negate'', ''negate'', ''invert'', ''and'', ''||'',
     ''>>>'', ''>>'', ''>='', ''>..'', ''>'', ''==='', ''=='', ''<>'', ''<=>'',
     ''<='', ''<<<'', ''<<'', ''<'', ''+'', ''%'', ''&&'', ''/'', ''**'',
     ''*'', ''..<'', ''..'', ''?:'', ''!=='', ''!='', ''->'', ''-'']"
  by (simp add: ALL_OPERATORS_def sort_js_def PREFIX_OPERATORS_def INFIX_OPERATORS_def
      rank_values)

text \<open>
  Claim C5, as stated: the list of the alternation is sorted by length, longest first. It
  is not: \<open>plus\<close> comes before \<open>negate\<close>, and \<open>||\<close> before \<open>>>>\<close>.
\<close>


theorem ALL_OPERATORS_by_length_counterexample:
  "\<not> sorted_wrt (\<lambda>a b. length b \<le> length a) ALL_OPERATORS"
  by (simp add: ALL_OPERATORS_value)

text \<open>
  Claim C5, amended. The list is sorted by \<open>localeCompare\<close>, greatest first. In that order
  no operator comes before an operator that it is a proper prefix of, so the longer of
  the two is tried first, and \<open>method === (x)\<close> is a method named \<open>===\<close>.
\<close>

theorem ALL_OPERATORS_prefix_order:
  "sorted_wrt (\<lambda>a b. localeCompare b a \<le> 0) ALL_OPERATORS
   \<and> sorted_wrt (\<lambda>earlier later. \<not> proper_prefix earlier later) ALL_OPERATORS
   \<and> Method E g ''method === (x)'' 0 = Success 14
       (MethodNode False ''==='' [ParameterNode ''x'' False
           (Some (Source (Index 12 1 13) (Index 13 1 14) g))] Absent
         (Some (Source (Index 0 1 1) (Index 14 1 15) g)))"
proof (intro conjI)
  show "sorted_wrt (\<lambda>a b. localeCompare b a \<le> 0) ALL_OPERATORS"
    by (simp add: ALL_OPERATORS_value rank_values)
  show "sorted_wrt (\<lambda>earlier later. \<not> proper_prefix earlier later) ALL_OPERATORS"
    by (simp add: ALL_OPERATORS_value proper_prefix_def)
  show "Method E g ''method === (x)'' 0 = Success 14
       (MethodNode False ''==='' [ParameterNode ''x'' False
           (Some (Source (Index 12 1 13) (Index 13 1 14) g))] Absent
         (Some (Source (Index 0 1 1) (Index 14 1 15) g)))"
    by (simp add: ev chars Let_def makeLineColumnIndex_def ALL_OPERATORS_value)
qed


section \<open>The code of a closure\<close>

text \<open>
  Claim C9, as stated: the code of a closure is the text between its braces. For the
  closure \<open>{ x }\<close> the code is the whole \<open>{ x }\<close>, braces included.
\<close>


lemma closure_x_parsed:
  "closureLiteral (Expression (Suc 0)) None ''{ x }'' 0 = Success 5
     (Closure [] [ReferenceNode ''x'' (Some (Source (Index 2 1 3) (Index 3 1 4) None))]
        (Some ''{ x }'') (Some (Source (Index 0 1 1) (Index 5 1 6) None)))"
  by (simp add: ev chars tables Let_def makeLineColumnIndex_def infix_call_def prefix_call_def
        trim_js_def slice_def)

theorem closureLiteral_code_counterexample:
  "closureLiteral (Expression (Suc 0)) None ''{ x }'' 0 = Success 5
     (Closure [] [ReferenceNode ''x'' (Some (Source (Index 2 1 3) (Index 3 1 4) None))]
        (Some ''{ x }'') (Some (Source (Index 0 1 1) (Index 5 1 6) None)))
   \<and> ''{ x }'' \<noteq> slice ''{ x }'' 1 4"
  using closure_x_parsed by (simp add: slice_def)

text \<open>
  Claim C9, amended. The code of a closure is the text that the closure literal
  consumed, from the index where it started to the index where it ended: it begins with
  the opening brace (and the blanks and comments in front of it, if any) and ends with
  the closing brace (and the blanks and comments that follow it).
\<close>


theorem closureLiteral_code:
  assumes "closureLiteral E g input i = Success j c"
  shows "\<exists>ps sentences k.
     key ''{'' g input i = Success k ''{'' \<and>
     c = Closure ps sentences (Some (slice input i j))
           (Some (Source (makeLineColumnIndex input i) (makeLineColumnIndex input j) g))"
  using assms
  apply (simp only: closureLiteral_def mark_def chain_p_Success wrap_Success index_p_Success
      succeed_Success)
  apply (elim exE conjE)
  apply (auto dest: key_result)
  done

text \<open>The closure \<open>{ x }\<close> again.\<close>

theorem closureLiteral_code_witness:
  "\<exists>ps sentences k.
     key ''{'' None ''{ x }'' 0 = Success k ''{'' \<and>
     Closure [] [ReferenceNode ''x'' (Some (Source (Index 2 1 3) (Index 3 1 4) None))]
        (Some ''{ x }'') (Some (Source (Index 0 1 1) (Index 5 1 6) None))
       = Closure ps sentences (Some (slice ''{ x }'' 0 5))
           (Some (Source (makeLineColumnIndex ''{ x }'' 0) (makeLineColumnIndex ''{ x }'' 5)
              None))"
  using closureLiteral_code [where E = "Expression (Suc 0)", OF closure_x_parsed] .

lemma many_stop: "many p g input i = Success j vs \<Longrightarrow> p g input j = Failure"
proof (induction p g input i arbitrary: vs rule: many.induct)
  case (1 p g input i)
  from many_Success_cases [OF "1.prems"] show ?case
  proof (elim disjE conjE exE)
    assume "p g input i = Failure" "j = i"
    then show ?thesis by simp
  next
    fix k v vs'
    assume step: "p g input i = Success k v" "i < k" "k \<le> length input"
      and rest: "many p g input k = Success j vs'"
    from "1.IH" [OF step(1) _ rest] step show ?thesis
      by simp
  qed
qed

lemma many_not_Failure: "many p g input i \<noteq> Failure"
proof (induction p g input i rule: many.induct)
  case (1 p g input i)
  show ?case
    using 1 by (subst many.simps) (auto split: reply.splits)
qed

lemma blank_replies:
  "or_p comment whitespace g input i \<noteq> Thrown" "or_p comment whitespace g input i \<noteq> Timeout"
  by (auto simp: or_p_ev alt_Cons_ev alt_Nil_ev comment_def whitespace_def Let_def
      split: reply.splits option.splits if_splits)

lemma optional_ws_stop:
  assumes "optional ws g input i = Success k u"
  shows "or_p comment whitespace g input k = Failure"
proof (cases "or_p comment whitespace g input i")
  case (Success k1 v)
  with assms obtain rest where "many (or_p comment whitespace) g input k1 = Success k rest"
    using many_not_Failure [of "or_p comment whitespace" g input k1]
    by (auto simp: optional_ev fallback_ev or_p_ev [of "map_p Some ws"] alt_Cons_ev alt_Nil_ev
        map_p_ev chain_p_ev ws_ev atLeast_p_ev times_p_ev succeed_ev split: reply.splits)
  then show ?thesis by (rule many_stop)
next
  case Failure
  with assms show ?thesis
    by (auto simp: optional_ev fallback_ev or_p_ev [of "map_p Some ws"] alt_Cons_ev alt_Nil_ev
        map_p_ev chain_p_ev ws_ev atLeast_p_ev times_p_ev succeed_ev split: reply.splits)
qed (simp_all add: blank_replies)

lemma optional_ws_idle:
  assumes "or_p comment whitespace g input k = Failure"
  shows "optional ws g input k = Success k None"
  using assms
  by (simp add: optional_ev fallback_ev or_p_ev [of "map_p Some ws"] alt_Cons_ev alt_Nil_ev
      map_p_ev chain_p_ev ws_ev atLeast_p_ev times_p_ev succeed_ev)

lemma optional_ws_again:
  "optional ws g input i = Success k u \<Longrightarrow> optional ws g input k = Success k None"
  by (rule optional_ws_idle) (rule optional_ws_stop)

lemma key_starts:
  assumes "key s g input i = Success j r"
  shows "\<exists>k u. optional ws g input i = Success k u \<and> take (length s) (drop k input) = s"
  using assms
  by (auto simp: key_def trim_def wrap_Success skip_Success string_p_def split: if_splits)

lemma key_Failure:
  assumes "optional ws g input i = Success k u" and "take (length s) (drop k input) \<noteq> s"
  shows "key s g input i = Failure"
  using assms
  by (simp add: key_ev trim_ev wrap_ev chain_p_ev skip_ev string_p_ev)


lemma drop_eq_Cons:
  assumes "drop k xs = x # rest"
  shows "k < length xs \<and> xs ! k = x"
proof -
  from assms have k: "k < length xs"
    by (cases "k < length xs") auto
  from Cons_nth_drop_Suc [OF k] assms show ?thesis
    using k by simp
qed

section \<open>Singletons as literals\<close>

lemma Singleton_node:
  "\<exists>P. Singleton E = node P \<and>
     (\<forall>g input k j payload. P g input k = Success j payload \<longrightarrow>
        (\<exists>k1 r. key ''object'' g input k = Success k1 r))"
  unfolding Singleton_def
  by (rule exI, rule conjI [OF refl]) (auto simp: map_p_Success then_p_Success)

text \<open>
  Claim C10. Wherever the parser of singletons succeeds, the parser of literals succeeds
  as well, over the same text, with a Literal whose value is that singleton. The singleton
  may have a name: the alternative of \<open>Literal\<close> is the whole \<open>Singleton\<close> parser. The
  alternatives before it cannot match a text that begins with \<open>object\<close>.
\<close>

theorem Singleton_is_Literal:
  assumes "Singleton E g input i = Success j s"
  shows "\<exists>src. Literal E g input i = Success j (LiteralNode (NodeValue s) src)"
proof -
  from Singleton_node [of E] obtain P where S: "Singleton E = node P"
    and object: "\<And>g input k j payload. P g input k = Success j payload \<Longrightarrow>
        \<exists>k1 r. key ''object'' g input k = Success k1 r"
    by blast
  from assms obtain k u payload where ws: "optional ws g input i = Success k u"
    and payload: "P g input k = Success j payload"
    and s: "s = payload (Some (Source (makeLineColumnIndex input k)
                                 (makeLineColumnIndex input j) g))"
    unfolding S node_Success by blast
  have ws_k: "optional ws g input k = Success k None"
    using ws by (rule optional_ws_again)
  from object [OF payload] obtain k1 r where "key ''object'' g input k = Success k1 r"
    by blast
  from key_starts [OF this] ws_k
  have "take (length ''object'') (drop k input) = ''object''"
    by auto
  then obtain rest where rest: "drop k input = CHR ''o'' # rest"
    by (cases "drop k input") auto
  then have k: "k < length input" and at_k: "input ! k = CHR ''o''"
    by (auto dest: drop_eq_Cons)
  have at_k_again: "Singleton E g input k = Success j s"
    unfolding S node_Success using ws_k payload s by blast
  have no_closure: "closureLiteral E g input i = Failure"
    using key_Failure [OF ws, of "''{''"] rest
    by (simp add: closureLiteral_ev chain_p_ev mark_ev index_p_ev wrap_ev)
  have no_key: "key ''null'' g input k = Failure" "key ''true'' g input k = Failure"
    "key ''false'' g input k = Failure" "key ''['' g input k = Failure"
    "key ''#{'' g input k = Failure"
    using rest by (auto intro!: key_Failure [OF ws_k])
  have no_number: "number g input k = Failure"
    using rest by (simp add: number_ev Let_def is_digit_def)
  have no_string: "stringLiteral g input k = Failure"
    using k at_k
    by (simp add: stringLiteral_ev map_p_ev chain_p_ev alt_Cons_ev alt_Nil_ev quoted_ev)
  have "Literal E g input i = Success j (LiteralNode (NodeValue s)
      (Some (Source (makeLineColumnIndex input k) (makeLineColumnIndex input j) g)))"
    using ws no_closure no_key no_number no_string at_k_again
    by (simp add: Literal_ev alt_Cons_ev node_ev chain_p_ev then_p_ev map_p_ev result_ev
        wrap_ev index_p_ev SOURCE_FILE_ev succeed_ev)
  then show ?thesis ..
qed

text \<open>The named singleton \<open>object foo { }\<close> in the place of a literal.\<close>

lemma object_foo:
  "Singleton E None ''object foo { }'' 0 = Success 14
     (SingletonNode (Some ''foo'') None [] [] [] (Some [])
        (Some (Source (Index 0 1 1) (Index 14 1 15) None)))"
  by (simp add: ev chars Let_def makeLineColumnIndex_def recover_def discriminate_def)

theorem Singleton_is_Literal_witness:
  "\<exists>src. Literal (Expression 0) None ''object foo { }'' 0 = Success 14
     (LiteralNode
        (NodeValue (SingletonNode (Some ''foo'') None [] [] [] (Some [])
           (Some (Source (Index 0 1 1) (Index 14 1 15) None))))
        src)"
  using Singleton_is_Literal [where E = "Expression 0", OF object_foo] .

section \<open>Compound assignment\<close>

text \<open>The assignation operators begin with different characters, so at most one of them parses.\<close>

lemma alt_only:
  assumes "p \<in> set ps" and "p g input i = Success j v"
    and "\<And>q. q \<in> set ps \<Longrightarrow> q \<noteq> p \<Longrightarrow> q g input i = Failure"
  shows "alt ps g input i = Success j v"
  using assms
proof (induction ps)
  case Nil
  then show ?case by simp
next
  case (Cons q ps)
  show ?case
  proof (cases "q = p")
    case True
    with Cons.prems(2) show ?thesis by (simp add: alt_first)
  next
    case False
    with Cons.prems have "q g input i = Failure" "p \<in> set ps"
      by auto
    with Cons show ?thesis
      by (simp add: alt_next)
  qed
qed

lemma key_is_operator:
  assumes member: "s \<in> set ASSIGNATION_OPERATORS"
    and parsed: "key s g input i = Success j r"
  shows "operator ASSIGNATION_OPERATORS g input i = Success j s"
proof -
  from key_starts [OF parsed] obtain k u where ws: "optional ws g input i = Success k u"
    and begins: "take (length s) (drop k input) = s"
    by blast
  from member begins have "\<exists>zs. drop k input = hd s # zs"
    by (cases "drop k input") (auto simp: ASSIGNATION_OPERATORS_def)
  then obtain zs where first: "drop k input = hd s # zs" ..
  have others: "key s' g input i = Failure"
    if "s' \<in> set ASSIGNATION_OPERATORS" "s' \<noteq> s" for s'
    using that member first begins
    by (intro key_Failure [OF ws]) (auto simp: ASSIGNATION_OPERATORS_def)
  from key_result [OF parsed] parsed have this_one: "key s g input i = Success j s"
    by simp
  show ?thesis
    unfolding operator_def
  proof (rule alt_only [where p = "key s"])
    show "key s \<in> set (map key ASSIGNATION_OPERATORS)"
      using member by simp
    show "key s g input i = Success j s"
      by (rule this_one)
    show "q g input i = Failure" if "q \<in> set (map key ASSIGNATION_OPERATORS)" "q \<noteq> key s" for q
    proof -
      from that obtain s' where "s' \<in> set ASSIGNATION_OPERATORS" "q = key s'" "s' \<noteq> s"
        by auto
      with others show ?thesis by simp
    qed
  qed
qed

lemma operator_is_key:
  assumes "operator operatorNames g input i = Success j s"
  shows "s \<in> set operatorNames \<and> key s g input i = Success j s"
proof -
  from assms have "\<exists>p \<in> set (map key operatorNames). p g input i = Success j s"
    unfolding operator_def by (rule alt_Success)
  then obtain s' where "s' \<in> set operatorNames" "key s' g input i = Success j s"
    by auto
  with key_result [of s' g input i j s] show ?thesis
    by simp
qed

text \<open>
  Claim C1. An assignment parses exactly when a reference parses, then an assignation
  operator \<open>X=\<close>, where \<open>X\<close> is empty or one of \<open>||\<close>, \<open>/\<close>, \<open>-\<close>, \<open>+\<close>, \<open>*\<close>, \<open>&&\<close>, \<open>%\<close>, then
  an expression. With the plain \<open>=\<close> the value of the Assignment node is the expression
  itself. With a compound operator the value is a Send whose receiver is the reference,
  whose message is \<open>X\<close>, and whose arguments are the expression alone, or a closure of no
  parameters around it when \<open>X\<close> is a lazy operator.
\<close>

theorem Assignment_desugars:
  "Assignment E g input i = Success j a \<longleftrightarrow>
     (\<exists>k u i1 variable X i2 v.
        optional ws g input i = Success k u \<and>
        Reference g input k = Success i1 variable \<and>
        X \<in> {[], ''||'', ''/'', ''-'', ''+'', ''*'', ''&&'', ''%''} \<and>
        key (X @ ''='') g input i1 = Success i2 (X @ ''='') \<and>
        E g input i2 = Success j v \<and>
        a = AssignmentNode variable
              (if X = [] then v
               else SendNode variable X
                      (if X \<in> {''||'', ''&&'', ''or'', ''and''}
                       then [Closure [] [v] None None] else [v])
                      None)
              (Some (Source (makeLineColumnIndex input k) (makeLineColumnIndex input j) g)))"
  (is "?parsed \<longleftrightarrow> ?shape")
proof
  assume ?parsed
  then obtain k u i1 variable i2 assignation v where
    ws: "optional ws g input i = Success k u"
    and reference: "Reference g input k = Success i1 variable"
    and assignation: "operator ASSIGNATION_OPERATORS g input i1 = Success i2 assignation"
    and e: "E g input i2 = Success j v"
    and a: "a = AssignmentNode variable
           (if assignation = ''='' then v
            else SendNode variable (butlast assignation)
                   (if butlast assignation \<in> set LAZY_OPERATORS
                    then [Closure [] [v] None None] else [v])
                   None)
           (Some (Source (makeLineColumnIndex input k) (makeLineColumnIndex input j) g))"
    apply (simp only: Assignment_def node_Success chain_p_Success succeed_Success)
    apply (elim exE conjE)
    apply simp
    done
  from operator_is_key [OF assignation]
  have member: "assignation \<in> set ASSIGNATION_OPERATORS"
    and key: "key assignation g input i1 = Success i2 assignation"
    by simp_all
  from member have X: "butlast assignation \<in> {[], ''||'', ''/'', ''-'', ''+'', ''*'', ''&&'', ''%''}"
    "butlast assignation @ ''='' = assignation"
    "butlast assignation = [] \<longleftrightarrow> assignation = ''=''"
    by (auto simp: ASSIGNATION_OPERATORS_def)
  show ?shape
    apply (rule exI [of _ k], rule exI [of _ u], rule exI [of _ i1], rule exI [of _ variable])
    apply (rule exI [of _ "butlast assignation"], rule exI [of _ i2], rule exI [of _ v])
    using ws reference key e a X
    apply (simp add: LAZY_OPERATORS_def)
    done
next
  assume ?shape
  then obtain k u i1 variable X i2 v where
    ws: "optional ws g input i = Success k u"
    and reference: "Reference g input k = Success i1 variable"
    and X: "X \<in> {[], ''||'', ''/'', ''-'', ''+'', ''*'', ''&&'', ''%''}"
    and key: "key (X @ ''='') g input i1 = Success i2 (X @ ''='')"
    and e: "E g input i2 = Success j v"
    and a: "a = AssignmentNode variable
              (if X = [] then v
               else SendNode variable X
                      (if X \<in> {''||'', ''&&'', ''or'', ''and''}
                       then [Closure [] [v] None None] else [v])
                      None)
              (Some (Source (makeLineColumnIndex input k) (makeLineColumnIndex input j) g))"
    by blast
  from X have member: "X @ ''='' \<in> set ASSIGNATION_OPERATORS"
    by (auto simp: ASSIGNATION_OPERATORS_def)
  from key_is_operator [OF member key]
  have assignation: "operator ASSIGNATION_OPERATORS g input i1 = Success i2 (X @ ''='')" .
  show ?parsed
    using ws reference assignation e a
    by (simp add: Assignment_ev node_ev chain_p_ev then_p_ev index_p_ev SOURCE_FILE_ev succeed_ev
        LAZY_OPERATORS_def)
qed

text \<open>The sentences \<open>x += 1\<close>, \<open>x ||= e\<close> and \<open>x = 1\<close>.\<close>

theorem Assignment_desugars_witness:
  "Assignment (Expression (Suc (Suc 0))) None ''x += 1'' 0 = Success 6
     (AssignmentNode
        (ReferenceNode ''x'' (Some (Source (Index 0 1 1) (Index 1 1 2) None)))
        (SendNode
           (ReferenceNode ''x'' (Some (Source (Index 0 1 1) (Index 1 1 2) None)))
           ''+''
           [LiteralNode (Number ''1'') (Some (Source (Index 5 1 6) (Index 6 1 7) None))]
           None)
        (Some (Source (Index 0 1 1) (Index 6 1 7) None)))
   \<and> Assignment (Expression (Suc (Suc 0))) None ''x ||= e'' 0 = Success 7
     (AssignmentNode
        (ReferenceNode ''x'' (Some (Source (Index 0 1 1) (Index 1 1 2) None)))
        (SendNode
           (ReferenceNode ''x'' (Some (Source (Index 0 1 1) (Index 1 1 2) None)))
           ''||''
           [Closure [] [ReferenceNode ''e'' (Some (Source (Index 6 1 7) (Index 7 1 8) None))]
              None None]
           None)
        (Some (Source (Index 0 1 1) (Index 7 1 8) None)))
   \<and> Assignment (Expression (Suc (Suc 0))) None ''x = 1'' 0 = Success 5
     (AssignmentNode
        (ReferenceNode ''x'' (Some (Source (Index 0 1 1) (Index 1 1 2) None)))
        (LiteralNode (Number ''1'') (Some (Source (Index 4 1 5) (Index 5 1 6) None)))
        (Some (Source (Index 0 1 1) (Index 5 1 6) None)))"
proof (intro conjI)
  let ?E = "Expression (Suc (Suc 0))"
  let ?x = "ReferenceNode ''x'' (Some (Source (Index 0 1 1) (Index 1 1 2) None))"
  have plus: "optional ws None ''x += 1'' 0 = Success 0 None"
    "Reference None ''x += 1'' 0 = Success 1 ?x"
    "key ''+='' None ''x += 1'' 1 = Success 5 ''+=''"
    by (simp_all add: ev chars Let_def makeLineColumnIndex_def)
  have one: "?E None ''x += 1'' 5 = Success 6
      (LiteralNode (Number ''1'') (Some (Source (Index 5 1 6) (Index 6 1 7) None)))"
    by (simp add: ev chars tables Let_def makeLineColumnIndex_def)
  show "Assignment ?E None ''x += 1'' 0 = Success 6
     (AssignmentNode ?x
        (SendNode ?x ''+''
           [LiteralNode (Number ''1'') (Some (Source (Index 5 1 6) (Index 6 1 7) None))] None)
        (Some (Source (Index 0 1 1) (Index 6 1 7) None)))"
    apply (rule Assignment_desugars [THEN iffD2])
    apply (rule exI [of _ 0], rule exI [of _ None], rule exI [of _ 1], rule exI [of _ ?x])
    apply (rule exI [of _ "''+''"], rule exI [of _ 5])
    apply (rule exI [of _ "LiteralNode (Number ''1'')
      (Some (Source (Index 5 1 6) (Index 6 1 7) None))"])
    using plus one
    apply (simp add: makeLineColumnIndex_def)
    done
  have lazy: "optional ws None ''x ||= e'' 0 = Success 0 None"
    "Reference None ''x ||= e'' 0 = Success 1 ?x"
    "key ''||='' None ''x ||= e'' 1 = Success 6 ''||=''"
    by (simp_all add: ev chars Let_def makeLineColumnIndex_def)
  have e: "?E None ''x ||= e'' 6 = Success 7
      (ReferenceNode ''e'' (Some (Source (Index 6 1 7) (Index 7 1 8) None)))"
    by (simp add: ev chars tables Let_def makeLineColumnIndex_def)
  show "Assignment ?E None ''x ||= e'' 0 = Success 7
     (AssignmentNode ?x
        (SendNode ?x ''||''
           [Closure [] [ReferenceNode ''e'' (Some (Source (Index 6 1 7) (Index 7 1 8) None))]
              None None]
           None)
        (Some (Source (Index 0 1 1) (Index 7 1 8) None)))"
    apply (rule Assignment_desugars [THEN iffD2])
    apply (rule exI [of _ 0], rule exI [of _ None], rule exI [of _ 1], rule exI [of _ ?x])
    apply (rule exI [of _ "''||''"], rule exI [of _ 6])
    apply (rule exI [of _ "ReferenceNode ''e''
      (Some (Source (Index 6 1 7) (Index 7 1 8) None))"])
    using lazy e
    apply (simp add: makeLineColumnIndex_def)
    done
  have plain: "optional ws None ''x = 1'' 0 = Success 0 None"
    "Reference None ''x = 1'' 0 = Success 1 ?x"
    "key ''='' None ''x = 1'' 1 = Success 4 ''=''"
    by (simp_all add: ev chars Let_def makeLineColumnIndex_def)
  have one': "?E None ''x = 1'' 4 = Success 5
      (LiteralNode (Number ''1'') (Some (Source (Index 4 1 5) (Index 5 1 6) None)))"
    by (simp add: ev chars tables Let_def makeLineColumnIndex_def)
  show "Assignment ?E None ''x = 1'' 0 = Success 5
     (AssignmentNode ?x
        (LiteralNode (Number ''1'') (Some (Source (Index 4 1 5) (Index 5 1 6) None)))
        (Some (Source (Index 0 1 1) (Index 5 1 6) None)))"
    apply (rule Assignment_desugars [THEN iffD2])
    apply (rule exI [of _ 0], rule exI [of _ None], rule exI [of _ 1], rule exI [of _ ?x])
    apply (rule exI [of _ "[]"], rule exI [of _ 4])
    apply (rule exI [of _ "LiteralNode (Number ''1'')
      (Some (Source (Index 4 1 5) (Index 5 1 6) None))"])
    using plain one'
    apply (simp add: makeLineColumnIndex_def)
    done
qed

section \<open>Spans and order of parsed lists\<close>

lemma many_mono: "many p g input i = Success j vs \<Longrightarrow> i \<le> j"
proof (induction p g input i arbitrary: vs rule: many.induct)
  case (1 p g input i)
  from many_Success_cases [OF "1.prems"] show ?case
  proof (elim disjE conjE exE)
    assume "j = i"
    then show ?thesis by simp
  next
    fix k v vs'
    assume step: "p g input i = Success k v" "i < k" "k \<le> length input"
      and rest: "many p g input k = Success j vs'"
    from "1.IH" [OF step(1) _ rest] step show ?thesis
      by simp
  qed
qed

lemma many_increasing:
  "many p g input i = Success j vs \<Longrightarrow>
   (\<And>k k' v. p g input k = Success k' v \<Longrightarrow> k \<le> f v \<and> f v < k' \<and> Q v) \<Longrightarrow>
   sorted_wrt (<) (map f vs) \<and> (\<forall>v \<in> set vs. i \<le> f v \<and> f v < j \<and> Q v)"
proof (induction p g input i arbitrary: vs rule: many.induct)
  case (1 p g input i)
  note step = "1.prems"(2)
  from many_Success_cases [OF "1.prems"(1)] show ?case
  proof (elim disjE conjE exE)
    assume "vs = []"
    then show ?thesis by simp
  next
    fix k v vs'
    assume first: "p g input i = Success k v" "i < k" "k \<le> length input"
      and rest: "many p g input k = Success j vs'" and vs: "vs = v # vs'"
    from "1.IH" [OF first(1) _ rest step] first
    have ih: "sorted_wrt (<) (map f vs')" "\<forall>v \<in> set vs'. k \<le> f v \<and> f v < j \<and> Q v"
      by simp_all
    from step [OF first(1)] have v: "i \<le> f v" "f v < k" "Q v"
      by simp_all
    from many_mono [OF rest] have "k \<le> j" .
    with ih v vs show ?thesis
      by fastforce
  qed
qed

lemma string_p_mono: "string_p s g input i = Success j r \<Longrightarrow> i \<le> j"
  by (auto simp: string_p_def split: if_splits)

lemma blank_mono: "or_p comment whitespace g input i = Success j v \<Longrightarrow> i \<le> j"
  by (auto simp: or_p_ev alt_Cons_ev alt_Nil_ev comment_def whitespace_def Let_def
      split: reply.splits option.splits if_splits)

lemma optional_ws_mono: "optional ws g input i = Success k u \<Longrightarrow> i \<le> k"
  by (auto simp: optional_ev fallback_ev or_p_ev [of "map_p Some ws"] alt_Cons_ev alt_Nil_ev
      map_p_ev chain_p_ev ws_ev atLeast_p_ev times_p_ev succeed_ev split: reply.splits
      dest!: blank_mono many_mono)

lemma notFollowedBy_Success:
  "notFollowedBy p g input i = Success j u \<Longrightarrow> j = i"
  by (auto simp: notFollowedBy_def split: reply.splits)

lemma key_mono: "key s g input i = Success j r \<Longrightarrow> i \<le> j"
  by (auto simp: key_def trim_def wrap_Success skip_Success split: if_splits
      dest!: optional_ws_mono string_p_mono notFollowedBy_Success)

lemma name_advances: "name g input i = Success j n \<Longrightarrow> i < j"
  by (auto simp: name_def Let_def split: list.splits if_splits)

lemma sepBy1_increasing:
  assumes p: "\<And>k k' v. p g input k = Success k' v \<Longrightarrow> k \<le> f v \<and> f v < k' \<and> Q v"
    and sep: "\<And>k k' u. sep g input k = Success k' u \<Longrightarrow> k \<le> k'"
    and parsed: "sepBy1 sep p g input i = Success j vs"
  shows "sorted_wrt (<) (map f vs) \<and> (\<forall>v \<in> set vs. i \<le> f v \<and> f v < j \<and> Q v)"
proof -
  from parsed obtain k r rs where r: "p g input i = Success k r"
    and rs: "many (then_p sep p) g input k = Success j rs" and vs: "vs = r # rs"
    by (auto simp: sepBy1_def chain_p_Success)
  have round: "k \<le> f v \<and> f v < k' \<and> Q v" if "then_p sep p g input k = Success k' v" for k k' v
    using that by (fastforce simp: then_p_Success dest: p sep)
  from many_increasing [where f = f and Q = Q, OF rs round]
  have "sorted_wrt (<) (map f rs)" "\<forall>v \<in> set rs. k \<le> f v \<and> f v < j \<and> Q v"
    by simp_all
  moreover from p [OF r] have "i \<le> f r" "f r < k" "Q r"
    by simp_all
  moreover from many_mono [OF rs] have "k \<le> j" .
  ultimately show ?thesis
    using vs by fastforce
qed

lemma atLeast_one_increasing:
  assumes p: "\<And>k k' v. p g input k = Success k' v \<Longrightarrow> k \<le> f v \<and> f v < k' \<and> Q v"
    and parsed: "atLeast_p 1 p g input i = Success j vs"
  shows "sorted_wrt (<) (map f vs) \<and> (\<forall>v \<in> set vs. i \<le> f v \<and> f v < j \<and> Q v)"
proof -
  from parsed obtain k r rs where r: "p g input i = Success k r"
    and rs: "many p g input k = Success j rs" and vs: "vs = r # rs"
    by (auto simp: atLeast_p_def chain_p_Success times_p.simps)
  from many_increasing [where f = f and Q = Q, OF rs p]
  have "sorted_wrt (<) (map f rs)" "\<forall>v \<in> set rs. k \<le> f v \<and> f v < j \<and> Q v"
    by simp_all
  moreover from p [OF r] have "i \<le> f r" "f r < k" "Q r"
    by simp_all
  moreover from many_mono [OF rs] have "k \<le> j" .
  ultimately show ?thesis
    using vs by fastforce
qed

lemma FullyQualifiedReference_span:
  assumes "FullyQualifiedReference g input i = Success j n"
  shows "i \<le> start_offset n \<and> start_offset n < j \<and> \<not> is_ParseError n"
proof -
  from assms obtain k u k1 r rs where ws: "optional ws g input i = Success k u"
    and r: "name g input k = Success k1 r"
    and rs: "many (then_p (key ''.'') name) g input k1 = Success j rs"
    and n: "n = ReferenceNode (tieWith ''.'' (r # rs))
              (Some (Source (makeLineColumnIndex input k) (makeLineColumnIndex input j) g))"
    by (auto simp: FullyQualifiedReference_def node_Success map_p_Success sepBy1_def
        chain_p_Success)
  from optional_ws_mono [OF ws] name_advances [OF r] many_mono [OF rs] n show ?thesis
    by (simp add: start_offset_def)
qed

lemma Reference_span:
  assumes "Reference g input i = Success j n"
  shows "i \<le> start_offset n \<and> start_offset n < j \<and> \<not> is_ParseError n"
proof -
  from assms obtain k u r where ws: "optional ws g input i = Success k u"
    and r: "name g input k = Success j r"
    and n: "n = ReferenceNode r
              (Some (Source (makeLineColumnIndex input k) (makeLineColumnIndex input j) g))"
    by (auto simp: Reference_def node_Success map_p_Success)
  from optional_ws_mono [OF ws] name_advances [OF r] n show ?thesis
    by (simp add: start_offset_def)
qed

lemma with_increasing:
  assumes "atLeast_p 1 (then_p (key ''with'') Reference) g input i = Success j listed"
  shows "sorted_wrt (<) (map start_offset listed)"
proof -
  have round: "k \<le> start_offset v \<and> start_offset v < k' \<and> \<not> is_ParseError v"
    if "then_p (key ''with'') Reference g input k = Success k' v" for k k' v
  proof -
    from that obtain k1 u where "key ''with'' g input k = Success k1 u"
      "Reference g input k1 = Success k' v"
      unfolding then_p_Success by blast
    with key_mono [of "''with''" g input k k1 u] Reference_span [of g input k1 k' v]
    show ?thesis by simp
  qed
  have "sorted_wrt (<) (map start_offset listed) \<and>
      (\<forall>n \<in> set listed. i \<le> start_offset n \<and> start_offset n < j \<and> \<not> is_ParseError n)"
    using round assms
    by (rule atLeast_one_increasing [where f = start_offset and Q = "\<lambda>n. \<not> is_ParseError n"])
  then show ?thesis by simp
qed

lemma listed_references:
  assumes "sepBy1 (key ''and'') FullyQualifiedReference g input i = Success j listed"
  shows "sorted_wrt (<) (map start_offset listed)"
    and "filter (\<lambda>x. \<not> is_ParseError x) (rev listed) = rev listed"
    and "filter is_ParseError (rev listed) = []"
proof -
  have all: "sorted_wrt (<) (map start_offset listed) \<and>
      (\<forall>n \<in> set listed. i \<le> start_offset n \<and> start_offset n < j \<and> \<not> is_ParseError n)"
    using FullyQualifiedReference_span key_mono assms
    by (rule sepBy1_increasing [where f = start_offset and Q = "\<lambda>n. \<not> is_ParseError n"])
  then show "sorted_wrt (<) (map start_offset listed)"
    by simp
  from all show "filter (\<lambda>x. \<not> is_ParseError x) (rev listed) = rev listed"
    by (simp add: filter_id_conv)
  from all show "filter is_ParseError (rev listed) = []"
    by (simp add: filter_empty_conv)
qed

lemma mixins_clause:
  assumes "key ''mixed with'' g input i = Success k w"
    and "sepBy1 (key ''and'') FullyQualifiedReference g input k = Success j listed"
  shows "mixins g input i = Success j (rev listed)"
  using assms
  by (simp add: mixins_ev fallback_ev or_p_ev alt_Cons_ev map_p_ev then_p_ev chain_p_ev
      succeed_ev)

lemma Class_stores_mixins:
  assumes "optional ws g input i = Success k u"
    and "key ''class'' g input k = Success k1 w"
    and "name g input k1 = Success k2 n"
    and "optional (then_p (key ''inherits'') FullyQualifiedReference) g input k2
           = Success k3 superclassRef"
    and "key ''mixed with'' g input k3 = Success k4 w'"
    and "sepBy1 (key ''and'') FullyQualifiedReference g input k4 = Success k5 listed"
    and "wrap (key ''{'') (key ''}'')
           (sepBy (optional ws) (alt [Constructor E, Field_p E, Method E, classMemberError]))
           g input k5 = Success j members"
  shows "Class E g input i = Success j
           (ClassNode n superclassRef (rev listed)
              (filter (\<lambda>x. \<not> is_ParseError x) members) (filter is_ParseError members)
              (Some (Source (makeLineColumnIndex input k) (makeLineColumnIndex input j) g)))"
  using assms(1-4,7) mixins_clause [OF assms(5,6)] listed_references(2,3) [OF assms(6)]
  by (simp add: Class_ev node_ev map_p_ev then_p_ev chain_p_ev index_p_ev SOURCE_FILE_ev
      succeed_ev recover_def discriminate_def)

lemma Singleton_stores_mixins:
  assumes "optional ws g input i = Success k u"
    and "key ''object'' g input k = Success k1 w"
    and "optional (then_p (notFollowedBy (or_p (key ''inherits'') (key ''mixed with''))) name)
           g input k1 = Success k2 n"
    and "optional (then_p (key ''inherits'')
             (chain_p FullyQualifiedReference (\<lambda>ref.
              chain_p (fallback [] (alt [unamedArguments E, namedArguments E])) (\<lambda>args.
                succeed (ref, args)))))
           g input k2 = Success k3 supercall"
    and "key ''mixed with'' g input k3 = Success k4 w'"
    and "sepBy1 (key ''and'') FullyQualifiedReference g input k4 = Success k5 listed"
    and "wrap (key ''{'') (key ''}'')
           (sepBy (optional ws) (alt [Field_p E, Method E, memberError]))
           g input k5 = Success j members"
  shows "Singleton E g input i = Success j
           (SingletonNode n (map_option fst supercall)
              (filter (\<lambda>x. \<not> is_ParseError x)
                 (case supercall of Some (ref, args) \<Rightarrow> args | None \<Rightarrow> []))
              (rev listed)
              (filter (\<lambda>x. \<not> is_ParseError x) members)
              (Some (filter is_ParseError members @
                     filter is_ParseError
                       (case supercall of Some (ref, args) \<Rightarrow> args | None \<Rightarrow> [])))
              (Some (Source (makeLineColumnIndex input k) (makeLineColumnIndex input j) g)))"
  using assms(1-4,7) mixins_clause [OF assms(5,6)] listed_references(2,3) [OF assms(6)]
  by (simp add: Singleton_ev node_ev map_p_ev then_p_ev chain_p_ev index_p_ev SOURCE_FILE_ev
      succeed_ev recover_def discriminate_def)

lemma Mixin_stores_mixins:
  assumes "optional ws g input i = Success k u"
    and "key ''mixin'' g input k = Success k1 w"
    and "name g input k1 = Success k2 n"
    and "key ''mixed with'' g input k2 = Success k3 w'"
    and "sepBy1 (key ''and'') FullyQualifiedReference g input k3 = Success k4 listed"
    and "wrap (key ''{'') (key ''}'')
           (sepBy (optional ws) (alt [Field_p E, Method E, memberError]))
           g input k4 = Success j members"
  shows "Mixin E g input i = Success j
           (MixinNode n (rev listed)
              (filter (\<lambda>x. \<not> is_ParseError x) members) (filter is_ParseError members)
              (Some (Source (makeLineColumnIndex input k) (makeLineColumnIndex input j) g)))"
  using assms(1-3,6) mixins_clause [OF assms(4,5)] listed_references(2,3) [OF assms(5)]
  by (simp add: Mixin_ev node_ev map_p_ev then_p_ev chain_p_ev index_p_ev SOURCE_FILE_ev
      succeed_ev recover_def discriminate_def)

lemma New_stores_mixins:
  assumes "optional ws g input i = Success k u"
    and "key ''new'' g input k = Success k1 w"
    and "optional ws g input k1 = Success k2 u'"
    and "FullyQualifiedReference g input k2 = Success k3 ref"
    and "alt [unamedArguments E, namedArguments E] g input k3 = Success k4 args"
    and "atLeast_p 1 (then_p (key ''with'') Reference) g input k4 = Success j listed"
  shows "New E g input i = Success j
           (LiteralNode
              (NodeValue
                 (SingletonNode None (Some ref) args (rev listed) [] None
                    (Some (Source (makeLineColumnIndex input k2) (makeLineColumnIndex input j) g))))
              (Some (Source (makeLineColumnIndex input k) (makeLineColumnIndex input j) g)))"
  using assms
  by (simp add: New_ev alt_Cons_ev node_ev map_p_ev then_p_ev chain_p_ev index_p_ev
      SOURCE_FILE_ev succeed_ev)

section \<open>The order of mixins\<close>

text \<open>
  Claim C3. When the header of a class, of a singleton or of a mixin is followed by a
  \<open>mixed with\<close> clause, that is the keyword and references separated by \<open>and\<close>, and then by
  the braces with the members, the declaration parses and the \<open>mixins\<close> of the node are the
  references of the clause in reverse. When \<open>new\<close>, a reference and its arguments are
  followed by one or more \<open>with\<close> and a reference, the expression parses to a literal of a
  singleton whose \<open>mixins\<close> are these references in reverse. The references of the clause
  are in the order of the text: their sources start at increasing offsets. So the
  rightmost reference of the text is the first of the stored list.
\<close>

theorem mixins_rightmost_first:
  "(optional ws g input i = Success k u \<and>
    key ''class'' g input k = Success k1 w \<and>
    name g input k1 = Success k2 n \<and>
    optional (then_p (key ''inherits'') FullyQualifiedReference) g input k2
      = Success k3 superclassRef \<and>
    key ''mixed with'' g input k3 = Success k4 w' \<and>
    sepBy1 (key ''and'') FullyQualifiedReference g input k4 = Success k5 listed \<and>
    wrap (key ''{'') (key ''}'')
      (sepBy (optional ws) (alt [Constructor E, Field_p E, Method E, classMemberError]))
      g input k5 = Success j members
    \<longrightarrow>
    Class E g input i = Success j
      (ClassNode n superclassRef (rev listed)
         (filter (\<lambda>x. \<not> is_ParseError x) members) (filter is_ParseError members)
         (Some (Source (makeLineColumnIndex input k) (makeLineColumnIndex input j) g))) \<and>
    sorted_wrt (<) (map start_offset listed))
   \<and>
   (optional ws g input i = Success k u \<and>
    key ''object'' g input k = Success k1 w \<and>
    optional (then_p (notFollowedBy (or_p (key ''inherits'') (key ''mixed with''))) name)
      g input k1 = Success k2 singletonName \<and>
    optional (then_p (key ''inherits'')
        (chain_p FullyQualifiedReference (\<lambda>ref.
         chain_p (fallback [] (alt [unamedArguments E, namedArguments E])) (\<lambda>args.
           succeed (ref, args)))))
      g input k2 = Success k3 supercall \<and>
    key ''mixed with'' g input k3 = Success k4 w' \<and>
    sepBy1 (key ''and'') FullyQualifiedReference g input k4 = Success k5 listed \<and>
    wrap (key ''{'') (key ''}'') (sepBy (optional ws) (alt [Field_p E, Method E, memberError]))
      g input k5 = Success j members
    \<longrightarrow>
    Singleton E g input i = Success j
      (SingletonNode singletonName (map_option fst supercall)
         (filter (\<lambda>x. \<not> is_ParseError x)
            (case supercall of Some (ref, args) \<Rightarrow> args | None \<Rightarrow> []))
         (rev listed)
         (filter (\<lambda>x. \<not> is_ParseError x) members)
         (Some (filter is_ParseError members @
                filter is_ParseError
                  (case supercall of Some (ref, args) \<Rightarrow> args | None \<Rightarrow> [])))
         (Some (Source (makeLineColumnIndex input k) (makeLineColumnIndex input j) g))) \<and>
    sorted_wrt (<) (map start_offset listed))
   \<and>
   (optional ws g input i = Success k u \<and>
    key ''mixin'' g input k = Success k1 w \<and>
    name g input k1 = Success k2 n \<and>
    key ''mixed with'' g input k2 = Success k4 w' \<and>
    sepBy1 (key ''and'') FullyQualifiedReference g input k4 = Success k5 listed \<and>
    wrap (key ''{'') (key ''}'') (sepBy (optional ws) (alt [Field_p E, Method E, memberError]))
      g input k5 = Success j members
    \<longrightarrow>
    Mixin E g input i = Success j
      (MixinNode n (rev listed)
         (filter (\<lambda>x. \<not> is_ParseError x) members) (filter is_ParseError members)
         (Some (Source (makeLineColumnIndex input k) (makeLineColumnIndex input j) g))) \<and>
    sorted_wrt (<) (map start_offset listed))
   \<and>
   (optional ws g input i = Success k u \<and>
    key ''new'' g input k = Success k1 w \<and>
    optional ws g input k1 = Success k2 u' \<and>
    FullyQualifiedReference g input k2 = Success k3 instantiated \<and>
    alt [unamedArguments E, namedArguments E] g input k3 = Success k4 arguments \<and>
    atLeast_p 1 (then_p (key ''with'') Reference) g input k4 = Success j listed
    \<longrightarrow>
    New E g input i = Success j
      (LiteralNode
         (NodeValue
            (SingletonNode None (Some instantiated) arguments (rev listed) [] None
               (Some (Source (makeLineColumnIndex input k2) (makeLineColumnIndex input j) g))))
         (Some (Source (makeLineColumnIndex input k) (makeLineColumnIndex input j) g))) \<and>
    sorted_wrt (<) (map start_offset listed))"
proof (intro conjI impI; elim conjE)
  assume "optional ws g input i = Success k u" "key ''class'' g input k = Success k1 w"
    "name g input k1 = Success k2 n"
    "optional (then_p (key ''inherits'') FullyQualifiedReference) g input k2
      = Success k3 superclassRef"
    "key ''mixed with'' g input k3 = Success k4 w'"
    "sepBy1 (key ''and'') FullyQualifiedReference g input k4 = Success k5 listed"
    "wrap (key ''{'') (key ''}'')
      (sepBy (optional ws) (alt [Constructor E, Field_p E, Method E, classMemberError]))
      g input k5 = Success j members"
  then show "Class E g input i = Success j
      (ClassNode n superclassRef (rev listed)
         (filter (\<lambda>x. \<not> is_ParseError x) members) (filter is_ParseError members)
         (Some (Source (makeLineColumnIndex input k) (makeLineColumnIndex input j) g)))"
    by (rule Class_stores_mixins)
next
  assume "optional ws g input i = Success k u" "key ''object'' g input k = Success k1 w"
    "optional (then_p (notFollowedBy (or_p (key ''inherits'') (key ''mixed with''))) name)
      g input k1 = Success k2 singletonName"
    "optional (then_p (key ''inherits'')
        (chain_p FullyQualifiedReference (\<lambda>ref.
         chain_p (fallback [] (alt [unamedArguments E, namedArguments E])) (\<lambda>args.
           succeed (ref, args)))))
      g input k2 = Success k3 supercall"
    "key ''mixed with'' g input k3 = Success k4 w'"
    "sepBy1 (key ''and'') FullyQualifiedReference g input k4 = Success k5 listed"
    "wrap (key ''{'') (key ''}'') (sepBy (optional ws) (alt [Field_p E, Method E, memberError]))
      g input k5 = Success j members"
  then show "Singleton E g input i = Success j
      (SingletonNode singletonName (map_option fst supercall)
         (filter (\<lambda>x. \<not> is_ParseError x)
            (case supercall of Some (ref, args) \<Rightarrow> args | None \<Rightarrow> []))
         (rev listed)
         (filter (\<lambda>x. \<not> is_ParseError x) members)
         (Some (filter is_ParseError members @
                filter is_ParseError
                  (case supercall of Some (ref, args) \<Rightarrow> args | None \<Rightarrow> [])))
         (Some (Source (makeLineColumnIndex input k) (makeLineColumnIndex input j) g)))"
    by (rule Singleton_stores_mixins)
next
  assume "optional ws g input i = Success k u" "key ''mixin'' g input k = Success k1 w"
    "name g input k1 = Success k2 n"
    "key ''mixed with'' g input k2 = Success k4 w'"
    "sepBy1 (key ''and'') FullyQualifiedReference g input k4 = Success k5 listed"
    "wrap (key ''{'') (key ''}'') (sepBy (optional ws) (alt [Field_p E, Method E, memberError]))
      g input k5 = Success j members"
  then show "Mixin E g input i = Success j
      (MixinNode n (rev listed)
         (filter (\<lambda>x. \<not> is_ParseError x) members) (filter is_ParseError members)
         (Some (Source (makeLineColumnIndex input k) (makeLineColumnIndex input j) g)))"
    by (rule Mixin_stores_mixins)
next
  assume "optional ws g input i = Success k u" "key ''new'' g input k = Success k1 w"
    "optional ws g input k1 = Success k2 u'"
    "FullyQualifiedReference g input k2 = Success k3 instantiated"
    "alt [unamedArguments E, namedArguments E] g input k3 = Success k4 arguments"
    "atLeast_p 1 (then_p (key ''with'') Reference) g input k4 = Success j listed"
  then show "New E g input i = Success j
      (LiteralNode
         (NodeValue
            (SingletonNode None (Some instantiated) arguments (rev listed) [] None
               (Some (Source (makeLineColumnIndex input k2) (makeLineColumnIndex input j) g))))
         (Some (Source (makeLineColumnIndex input k) (makeLineColumnIndex input j) g)))"
    by (rule New_stores_mixins)
next
  assume "atLeast_p 1 (then_p (key ''with'') Reference) g input k4 = Success j listed"
  then show "sorted_wrt (<) (map start_offset listed)"
    by (rule with_increasing)
qed (erule listed_references(1))+

text \<open>
  The declarations \<open>class C mixed with A and B and C { }\<close>, \<open>object o mixed with A and B { }\<close>
  and \<open>mixin M mixed with A.B and C {}\<close>, and the expression \<open>new A() with M1 with M2\<close>.
\<close>

theorem mixins_rightmost_first_witness:
  "Class (Expression 0) None ''class C mixed with A and B and C { }'' 0 = Success 36
     (ClassNode ''C'' None
        [ReferenceNode ''C'' (Some (Source (Index 31 1 32) (Index 32 1 33) None)),
         ReferenceNode ''B'' (Some (Source (Index 25 1 26) (Index 26 1 27) None)),
         ReferenceNode ''A'' (Some (Source (Index 19 1 20) (Index 20 1 21) None))]
        [] [] (Some (Source (Index 0 1 1) (Index 36 1 37) None)))
   \<and> Singleton (Expression 0) None ''object o mixed with A and B { }'' 0 = Success 31
     (SingletonNode (Some ''o'') None []
        [ReferenceNode ''B'' (Some (Source (Index 26 1 27) (Index 27 1 28) None)),
         ReferenceNode ''A'' (Some (Source (Index 20 1 21) (Index 21 1 22) None))]
        [] (Some []) (Some (Source (Index 0 1 1) (Index 31 1 32) None)))
   \<and> Mixin (Expression 0) None ''mixin M mixed with A.B and C {}'' 0 = Success 31
     (MixinNode ''M''
        [ReferenceNode ''C'' (Some (Source (Index 27 1 28) (Index 28 1 29) None)),
         ReferenceNode ''A.B'' (Some (Source (Index 19 1 20) (Index 22 1 23) None))]
        [] [] (Some (Source (Index 0 1 1) (Index 31 1 32) None)))
   \<and> New (Expression (Suc 0)) None ''new A() with M1 with M2'' 0 = Success 23
     (LiteralNode
        (NodeValue
           (SingletonNode None
              (Some (ReferenceNode ''A'' (Some (Source (Index 4 1 5) (Index 5 1 6) None))))
              []
              [ReferenceNode ''M2'' (Some (Source (Index 21 1 22) (Index 23 1 24) None)),
               ReferenceNode ''M1'' (Some (Source (Index 13 1 14) (Index 15 1 16) None))]
              [] None (Some (Source (Index 4 1 5) (Index 23 1 24) None))))
        (Some (Source (Index 0 1 1) (Index 23 1 24) None)))"
proof (intro conjI)
  let ?c = "''class C mixed with A and B and C { }''"
  let ?cs = "[ReferenceNode ''A'' (Some (Source (Index 19 1 20) (Index 20 1 21) None)),
      ReferenceNode ''B'' (Some (Source (Index 25 1 26) (Index 26 1 27) None)),
      ReferenceNode ''C'' (Some (Source (Index 31 1 32) (Index 32 1 33) None))]"
  have "optional ws None ?c 0 = Success 0 None \<and>
    key ''class'' None ?c 0 = Success 6 ''class'' \<and>
    name None ?c 6 = Success 7 ''C'' \<and>
    optional (then_p (key ''inherits'') FullyQualifiedReference) None ?c 7 = Success 7 None \<and>
    key ''mixed with'' None ?c 7 = Success 19 ''mixed with'' \<and>
    sepBy1 (key ''and'') FullyQualifiedReference None ?c 19 = Success 32 ?cs \<and>
    wrap (key ''{'') (key ''}'')
      (sepBy (optional ws)
         (alt [Constructor (Expression 0), Field_p (Expression 0), Method (Expression 0),
               classMemberError]))
      None ?c 32 = Success 36 []"
    by (simp add: ev chars Let_def makeLineColumnIndex_def)
  from mixins_rightmost_first [where E = "Expression 0" and g = None and input = ?c and i = 0
      and k = 0 and u = None and ?k1.0 = 6 and w = "''class''" and ?k2.0 = 7 and n = "''C''"
      and ?k3.0 = 7 and superclassRef = None and ?k4.0 = 19 and w' = "''mixed with''"
      and ?k5.0 = 32 and listed = ?cs and j = 36 and members = "[]",
      THEN conjunct1, THEN mp, OF this]
  show "Class (Expression 0) None ?c 0 = Success 36 (ClassNode ''C'' None
        [ReferenceNode ''C'' (Some (Source (Index 31 1 32) (Index 32 1 33) None)),
         ReferenceNode ''B'' (Some (Source (Index 25 1 26) (Index 26 1 27) None)),
         ReferenceNode ''A'' (Some (Source (Index 19 1 20) (Index 20 1 21) None))] [] []
      (Some (Source (Index 0 1 1) (Index 36 1 37) None)))"
    by (simp add: makeLineColumnIndex_def)
next
  let ?c = "''object o mixed with A and B { }''"
  let ?cs = "[ReferenceNode ''A'' (Some (Source (Index 20 1 21) (Index 21 1 22) None)),
      ReferenceNode ''B'' (Some (Source (Index 26 1 27) (Index 27 1 28) None))]"
  have "optional ws None ?c 0 = Success 0 None \<and>
    key ''object'' None ?c 0 = Success 7 ''object'' \<and>
    optional (then_p (notFollowedBy (or_p (key ''inherits'') (key ''mixed with''))) name)
      None ?c 7 = Success 8 (Some ''o'') \<and>
    optional (then_p (key ''inherits'')
        (chain_p FullyQualifiedReference (\<lambda>ref.
         chain_p (fallback [] (alt [unamedArguments (Expression 0),
             namedArguments (Expression 0)])) (\<lambda>args.
           succeed (ref, args)))))
      None ?c 8 = Success 8 None \<and>
    key ''mixed with'' None ?c 8 = Success 20 ''mixed with'' \<and>
    sepBy1 (key ''and'') FullyQualifiedReference None ?c 20 = Success 27 ?cs \<and>
    wrap (key ''{'') (key ''}'')
      (sepBy (optional ws)
         (alt [Field_p (Expression 0), Method (Expression 0), memberError]))
      None ?c 27 = Success 31 []"
    by (simp add: ev chars Let_def makeLineColumnIndex_def)
  from mixins_rightmost_first [where E = "Expression 0" and g = None and input = ?c and i = 0
      and k = 0 and u = None and ?k1.0 = 7 and w = "''object''" and ?k2.0 = 8
      and singletonName = "Some ''o''"
      and ?k3.0 = 8 and supercall = None and ?k4.0 = 20 and w' = "''mixed with''"
      and ?k5.0 = 27 and listed = ?cs and j = 31 and members = "[]",
      THEN conjunct2, THEN conjunct1, THEN mp, OF this]
  show "Singleton (Expression 0) None ?c 0 = Success 31
     (SingletonNode (Some ''o'') None []
        [ReferenceNode ''B'' (Some (Source (Index 26 1 27) (Index 27 1 28) None)),
         ReferenceNode ''A'' (Some (Source (Index 20 1 21) (Index 21 1 22) None))]
        [] (Some []) (Some (Source (Index 0 1 1) (Index 31 1 32) None)))"
    by (simp add: makeLineColumnIndex_def)
next
  let ?c = "''mixin M mixed with A.B and C {}''"
  let ?cs = "[ReferenceNode ''A.B'' (Some (Source (Index 19 1 20) (Index 22 1 23) None)),
      ReferenceNode ''C'' (Some (Source (Index 27 1 28) (Index 28 1 29) None))]"
  have "optional ws None ?c 0 = Success 0 None \<and>
    key ''mixin'' None ?c 0 = Success 6 ''mixin'' \<and>
    name None ?c 6 = Success 7 ''M'' \<and>
    key ''mixed with'' None ?c 7 = Success 19 ''mixed with'' \<and>
    sepBy1 (key ''and'') FullyQualifiedReference None ?c 19 = Success 28 ?cs \<and>
    wrap (key ''{'') (key ''}'')
      (sepBy (optional ws)
         (alt [Field_p (Expression 0), Method (Expression 0), memberError]))
      None ?c 28 = Success 31 []"
    by (simp add: ev chars Let_def makeLineColumnIndex_def)
  from mixins_rightmost_first [where E = "Expression 0" and g = None and input = ?c and i = 0
      and k = 0 and u = None and ?k1.0 = 6 and w = "''mixin''" and ?k2.0 = 7 and n = "''M''"
      and ?k4.0 = 19 and w' = "''mixed with''"
      and ?k5.0 = 28 and listed = ?cs and j = 31 and members = "[]",
      THEN conjunct2, THEN conjunct2, THEN conjunct1, THEN mp, OF this]
  show "Mixin (Expression 0) None ?c 0 = Success 31
     (MixinNode ''M''
        [ReferenceNode ''C'' (Some (Source (Index 27 1 28) (Index 28 1 29) None)),
         ReferenceNode ''A.B'' (Some (Source (Index 19 1 20) (Index 22 1 23) None))] [] [] (Some (Source (Index 0 1 1) (Index 31 1 32) None)))"
    by (simp add: makeLineColumnIndex_def)
next
  let ?c = "''new A() with M1 with M2''"
  let ?cs = "[ReferenceNode ''M1'' (Some (Source (Index 13 1 14) (Index 15 1 16) None)),
      ReferenceNode ''M2'' (Some (Source (Index 21 1 22) (Index 23 1 24) None))]"
  let ?A = "ReferenceNode ''A'' (Some (Source (Index 4 1 5) (Index 5 1 6) None))"
  have "optional ws None ?c 0 = Success 0 None \<and>
    key ''new'' None ?c 0 = Success 4 ''new'' \<and>
    optional ws None ?c 4 = Success 4 None \<and>
    FullyQualifiedReference None ?c 4 = Success 5 ?A \<and>
    alt [unamedArguments (Expression (Suc 0)), namedArguments (Expression (Suc 0))]
      None ?c 5 = Success 8 [] \<and>
    atLeast_p 1 (then_p (key ''with'') Reference) None ?c 8 = Success 23 ?cs"
    by (simp add: ev chars tables Let_def makeLineColumnIndex_def)
  from mixins_rightmost_first [where E = "Expression (Suc 0)" and g = None and input = ?c
      and i = 0 and k = 0 and u = None and ?k1.0 = 4 and w = "''new''" and ?k2.0 = 4
      and u' = None and ?k3.0 = 5 and instantiated = ?A and ?k4.0 = 8 and arguments = "[]"
      and listed = ?cs and j = 23,
      THEN conjunct2, THEN conjunct2, THEN conjunct2, THEN mp, OF this]
  show "New (Expression (Suc 0)) None ?c 0 = Success 23
     (LiteralNode
        (NodeValue
           (SingletonNode None (Some ?A) []
              [ReferenceNode ''M2'' (Some (Source (Index 21 1 22) (Index 23 1 24) None)),
               ReferenceNode ''M1'' (Some (Source (Index 13 1 14) (Index 15 1 16) None))]
              [] None (Some (Source (Index 4 1 5) (Index 23 1 24) None))))
        (Some (Source (Index 0 1 1) (Index 23 1 24) None)))"
    by (simp add: makeLineColumnIndex_def)
qed

section \<open>Recovery at the position of an entity\<close>

text \<open>
  Claim C6. In a recoverable container every malformed region becomes a problem of the
  container, and the well-formed children before and after the region stay in its
  members. In the code \<open>entityError\<close> skips up to the next of its safewords, and the one
  for a singleton is \<open>singleton\<close>, where a singleton begins with \<open>object\<close>. In the package
  \<open>package p { @ object o { } class B { } }\<close> the problem covers \<open>@ object o { }\<close>, and the
  members of \<open>p\<close> are the class \<open>B\<close> alone: the singleton after the malformed \<open>@\<close> is lost.
  The package of a file is parsed by \<open>File\<close>, which does not try \<open>entityError\<close> as \<open>Package\<close>
  does: \<open>class A {} @bogus class B {}\<close> fails as a whole.
\<close>

theorem entityError_swallows_singleton:
  "parse (Suc (Suc 0)) ''f.wlk'' ''package p { @ object o { } class B { } }'' None =
    (Some ''f.wlk'',
     Success 40
      (PackageNode ''f'' []
        [PackageNode ''p'' []
          [ClassNode ''B'' None [] [] []
            (Some (Source (Index 27 1 28) (Index 39 1 40) (Some ''f.wlk'')))]
          (Some
            [ParseError ''malformedEntity''
              (Source (Index 12 1 13) (Index 26 1 27) (Some ''f.wlk''))])
          (Some (Source (Index 0 1 1) (Index 40 1 41) (Some ''f.wlk'')))]
        None (Some (Source (Index 0 1 1) (Index 40 1 41) (Some ''f.wlk'')))))
   \<and> slice ''package p { @ object o { } class B { } }'' 12 26 = ''@ object o { }''
   \<and> parse (Suc (Suc 0)) ''f.wlk'' ''class A {} @bogus class B {}'' None
       = (Some ''f.wlk'', Failure)"
  by (simp add: parse_def File_def tryParse_def ev chars tables Let_def makeLineColumnIndex_def
      recover_def discriminate_def basename_def slice_def)

section \<open>Sources of the nodes that the parser makes up\<close>

text \<open>
  Claim C7. Every node has a source with a start, an end and the file, the Return of a
  method with an expression for a body and the Sends folded for the operators included.
  In the code \<open>node\<close> gives a node its source with the file. The folds of \<open>infixOperation\<close>,
  \<open>prefixOperation\<close> and \<open>Send\<close> write \<open>source: { start, end }\<close>, without the file, and the
  Return that \<open>Method\<close> makes for \<open>= Expression\<close> gets no source. In the file \<open>f.wlk\<close> with
  the text \<open>class C { method m() = 1 + 2 }\<close> the Send of \<open>+\<close> has a source with no file, the
  Body has that same source, and the Return has none; every other node records \<open>f.wlk\<close>.
\<close>

theorem synthesized_nodes_without_source:
  "parse (Suc (Suc 0)) ''f.wlk'' ''class C { method m() = 1 + 2 }'' None =
    (Some ''f.wlk'',
     Success 30
      (PackageNode ''f'' []
        [ClassNode ''C'' None []
          [MethodNode False ''m'' []
            (BodyValue
              (BodyNode
                [ReturnNode
                  (Some
                    (SendNode
                      (LiteralNode (Number ''1'')
                        (Some (Source (Index 23 1 24) (Index 24 1 25) (Some ''f.wlk''))))
                      ''+''
                      [LiteralNode (Number ''2'')
                        (Some (Source (Index 27 1 28) (Index 28 1 29) (Some ''f.wlk'')))]
                      (Some (Source (Index 23 1 24) (Index 28 1 29) None))))
                  None]
                (Some (Source (Index 23 1 24) (Index 28 1 29) None))))
            (Some (Source (Index 10 1 11) (Index 28 1 29) (Some ''f.wlk'')))]
          [] (Some (Source (Index 0 1 1) (Index 30 1 31) (Some ''f.wlk'')))]
        None (Some (Source (Index 0 1 1) (Index 30 1 31) (Some ''f.wlk'')))))"
  by (simp add: parse_def File_def tryParse_def ev chars tables Let_def makeLineColumnIndex_def
      recover_def discriminate_def basename_def infix_call_def prefix_call_def trim_js_def)

section \<open>The module variable of the file name\<close>

text \<open>
  Claim C8. The parser keeps no state between calls, and the file name in the sources of
  the nodes is the one of the call that made them. In the code \<open>File\<close> assigns the module
  variable \<open>SOURCE_FILE\<close> when the parser is built, and \<open>node\<close> reads the variable when the
  parser runs. The parser built for \<open>a.wlk\<close>, run after \<open>File\<close> was called for \<open>b.wlk\<close>,
  names its package \<open>a\<close> and records \<open>b.wlk\<close> in the source of every node. Run at once, as
  \<open>parse\<close> does, it records \<open>a.wlk\<close>, and the variable keeps that name after the call.
\<close>

theorem SOURCE_FILE_shared:
  "(case File (Suc 0) ''a.wlk'' None of (g1, a) \<Rightarrow>
      case File (Suc 0) ''b.wlk'' g1 of (g2, b) \<Rightarrow> tryParse a g2 ''class C { }'')
     = Success 11
         (PackageNode ''a'' []
            [ClassNode ''C'' None [] [] []
               (Some (Source (Index 0 1 1) (Index 11 1 12) (Some ''b.wlk'')))]
            None (Some (Source (Index 0 1 1) (Index 11 1 12) (Some ''b.wlk''))))
   \<and> parse (Suc 0) ''a.wlk'' ''class C { }'' None
     = (Some ''a.wlk'',
        Success 11
         (PackageNode ''a'' []
            [ClassNode ''C'' None [] [] []
               (Some (Source (Index 0 1 1) (Index 11 1 12) (Some ''a.wlk'')))]
            None (Some (Source (Index 0 1 1) (Index 11 1 12) (Some ''a.wlk'')))))"
  by (simp add: parse_def File_def tryParse_def ev chars Let_def makeLineColumnIndex_def
      recover_def discriminate_def basename_def)

end
